theory Spec2Isabelle
  imports Main
begin

section \<open>Persistent data\<close>

text \<open>
  The tables of \<^verbatim>\<open>app/models\<close>, one record per mapped class and one list of rows per
  table. Only the columns that the modelled services read or write are kept; the
  remaining columns (role tags, contact data of a student) take no part in any of them.
  Nullable columns are options. Python's integers are unbounded, hence \<open>int\<close>.
\<close>

record telegram_row =
  tg_id :: int
  tg_telegram_id :: int

record curator_row =
  curator_id :: int
  curator_login :: string
  curator_password :: string
  curator_first_name :: string
  curator_last_name :: string
  curator_patronymic :: string

record group_row =
  group_id :: int
  group_name :: string
  group_curator_id :: int

record student_row =
  student_id :: int
  student_login :: "string option"
  student_password :: "string option"
  student_first_name :: string
  student_last_name :: string
  student_patronymic :: string
  student_group_id :: int
  student_telegram_id :: "int option"
  student_verif :: bool

record exam_row =
  exam_id :: int
  exam_type :: string
  exam_semester :: int
  exam_course :: int
  exam_discipline :: string
  exam_holding_date :: string
  exam_link :: "string option"
  exam_group_id :: int
  exam_curator_id :: int

record mark_row =
  mark_id :: int
  mark_value :: "int option"
  mark_exam_id :: int
  mark_student_id :: int

record database =
  db_curators :: "curator_row list"
  db_groups :: "group_row list"
  db_students :: "student_row list"
  db_exams :: "exam_row list"
  db_marks :: "mark_row list"
  db_telegrams :: "telegram_row list"

text \<open>
  Exceptions that the services raise are values: \<open>HTTPException\<close> carries its status
  code, \<open>IntegrityError\<close> is the database refusing a commit.
\<close>

datatype exn = HTTPException int | IntegrityError

section \<open>Recipient resolver\<close>

text \<open>
  \<^verbatim>\<open>ExamService.get_telegram_ids_by_exam_id\<close>. The exam is read with
  \<^verbatim>\<open>scalar_one_or_none\<close>: no row raises 404, more than one row raises
  \<^verbatim>\<open>MultipleResultsFound\<close>, an \<^verbatim>\<open>SQLAlchemyError\<close> that the handler turns into 500.
  The second query joins \<^verbatim>\<open>telegram\<close> with \<^verbatim>\<open>student\<close> on
  \<^verbatim>\<open>Student.telegram_id == Telegram.id\<close>; SQL fixes no row order, the model lists the
  rows telegram-major.
\<close>

definition get_telegram_ids_by_exam_id :: "int \<Rightarrow> database \<Rightarrow> exn + int list" where
  "get_telegram_ids_by_exam_id eid db =
     (case filter (\<lambda>e. exam_id e = eid) (db_exams db) of
        [] \<Rightarrow> Inl (HTTPException 404)
      | [exam] \<Rightarrow>
          Inr [tg_telegram_id t.
                 t \<leftarrow> db_telegrams db, s \<leftarrow> db_students db,
                 student_telegram_id s = Some (tg_id t),
                 student_group_id s = exam_group_id exam,
                 student_telegram_id s \<noteq> None]
      | _ \<Rightarrow> Inl (HTTPException 500))"

section \<open>Library and platform functions\<close>

text \<open>
  Python strings are modelled as \<open>string\<close>: the bytes of their UTF-8 encoding, so that
  equality and concatenation are exact. What CPython, SQLAlchemy, the DBMS and the
  password library compute on strings is not code of this repository; the services take
  these functions from a \<open>runtime\<close> record and every theorem holds for every runtime.
  \<^item> \<open>str_lower\<close>, \<open>str_strip\<close>, \<open>str_split\<close>: \<^verbatim>\<open>str.lower()\<close>, \<^verbatim>\<open>str.strip()\<close>,
    \<^verbatim>\<open>str.split()\<close>;
  \<^item> \<open>int_of_str\<close>: \<^verbatim>\<open>int(s)\<close>, \<open>None\<close> when it raises \<^verbatim>\<open>ValueError\<close>;
    \<open>str_of_int\<close>: \<^verbatim>\<open>str(n)\<close>;
  \<^item> \<open>strptime\<close>: \<^verbatim>\<open>datetime.strptime(s, "%Y-%m-%d").date()\<close> as the day number of the
    date (\<^verbatim>\<open>toordinal\<close>), \<open>None\<close> when it raises \<^verbatim>\<open>ValueError\<close>;
    \<open>strftime\<close>: \<^verbatim>\<open>date.strftime("%Y-%m-%d")\<close>;
  \<^item> \<open>sql_ge\<close>: the comparison \<^verbatim>\<open>>=\<close> of the DBMS on string columns;
    \<open>ilike\<close>: \<^verbatim>\<open>column.ilike(pattern)\<close>, column value first;
  \<^item> \<open>hash_password\<close>: \<^verbatim>\<open>app.utils.security.hash_password\<close>.
\<close>

record runtime =
  str_lower :: "string \<Rightarrow> string"
  str_strip :: "string \<Rightarrow> string"
  str_split :: "string \<Rightarrow> string list"
  int_of_str :: "string \<Rightarrow> int option"
  str_of_int :: "int \<Rightarrow> string"
  strptime :: "string \<Rightarrow> int option"
  strftime :: "int \<Rightarrow> string"
  sql_ge :: "string \<Rightarrow> string \<Rightarrow> bool"
  ilike :: "string \<Rightarrow> string \<Rightarrow> bool"
  hash_password :: "string \<Rightarrow> string"

text \<open>
  \<^verbatim>\<open>len(s)\<close> counts code points: the bytes of a UTF-8 string that are not continuation
  bytes (\<open>0x80\<close> to \<open>0xBF\<close>).
\<close>

definition py_len :: "string \<Rightarrow> nat" where
  "py_len s = length (filter (\<lambda>c. \<not> (128 \<le> (of_char c :: nat) \<and> (of_char c :: nat) < 192)) s)"

subsection \<open>String literals of the source\<close>

text \<open>
  The non-ASCII literals of \<^verbatim>\<open>services/mark.py\<close> and \<^verbatim>\<open>utils/bot.py\<close>, as UTF-8
  bytes: the two spellings of ``not graded'', the names of the two exam types, the two
  reminder offsets, and the fixed segments of the reminder and of the mark message.
\<close>

definition txt_na :: string where
  "txt_na =
     [CHR 0xD0, CHR 0xBD, CHR ''/'', CHR 0xD0, CHR 0xB0]"

definition txt_net :: string where
  "txt_net =
     [CHR 0xD0, CHR 0xBD, CHR 0xD0, CHR 0xB5, CHR 0xD1, CHR 0x82]"

definition txt_exam :: string where
  "txt_exam =
     [CHR 0xD0, CHR 0xAD, CHR 0xD0, CHR 0xBA, CHR 0xD0, CHR 0xB7, CHR 0xD0, CHR 0xB0,
      CHR 0xD0, CHR 0xBC, CHR 0xD0, CHR 0xB5, CHR 0xD0, CHR 0xBD]"

definition txt_credit :: string where
  "txt_credit =
     [CHR 0xD0, CHR 0x97, CHR 0xD0, CHR 0xB0, CHR 0xD1, CHR 0x87, CHR 0xD1, CHR 0x91,
      CHR 0xD1, CHR 0x82]"

definition txt_tomorrow :: string where
  "txt_tomorrow =
     [CHR 0xD0, CHR 0xB7, CHR 0xD0, CHR 0xB0, CHR 0xD0, CHR 0xB2, CHR 0xD1, CHR 0x82,
      CHR 0xD1, CHR 0x80, CHR 0xD0, CHR 0xB0]"

definition txt_in_3_days :: string where
  "txt_in_3_days =
     [CHR 0xD1, CHR 0x87, CHR 0xD0, CHR 0xB5, CHR 0xD1, CHR 0x80, CHR 0xD0, CHR 0xB5,
      CHR 0xD0, CHR 0xB7, CHR '' '', CHR ''3'', CHR '' '', CHR 0xD0, CHR 0xB4, CHR 0xD0,
      CHR 0xBD, CHR 0xD1, CHR 0x8F]"

definition txt_reminder_1 :: string where
  "txt_reminder_1 =
     [CHR 0xE2, CHR 0x8F, CHR 0xB0, CHR '' '', CHR 0xD0, CHR 0x9D, CHR 0xD0, CHR 0xB0,
      CHR 0xD0, CHR 0xBF, CHR 0xD0, CHR 0xBE, CHR 0xD0, CHR 0xBC, CHR 0xD0, CHR 0xB8,
      CHR 0xD0, CHR 0xBD, CHR 0xD0, CHR 0xB0, CHR 0xD0, CHR 0xBD, CHR 0xD0, CHR 0xB8,
      CHR 0xD0, CHR 0xB5, CHR 0x0A, CHR 0xF0, CHR 0x9F, CHR 0x93, CHR 0x9A, CHR '' '']"

definition txt_reminder_2 :: string where
  "txt_reminder_2 =
     [CHR '' '', CHR 0xD0, CHR 0xBF, CHR 0xD0, CHR 0xBE, CHR '' '', CHR ''<'', CHR ''b'',
      CHR ''>'']"

definition txt_reminder_3 :: string where
  "txt_reminder_3 =
     [CHR ''<'', CHR ''/'', CHR ''b'', CHR ''>'', CHR '' '']"

definition txt_reminder_4 :: string where
  "txt_reminder_4 =
     [CHR ''!'', CHR 0x0A, CHR 0xF0, CHR 0x9F, CHR 0x93, CHR 0x85, CHR '' '', CHR 0xD0,
      CHR 0x94, CHR 0xD0, CHR 0xB0, CHR 0xD1, CHR 0x82, CHR 0xD0, CHR 0xB0, CHR '':'',
      CHR '' '']"

definition txt_reminder_5 :: string where
  "txt_reminder_5 =
     [CHR 0x0A, CHR 0xF0, CHR 0x9F, CHR 0x91, CHR 0xA8, CHR 0xE2, CHR 0x80, CHR 0x8D,
      CHR 0xF0, CHR 0x9F, CHR 0x8F, CHR 0xAB, CHR '' '', CHR 0xD0, CHR 0x9F, CHR 0xD1,
      CHR 0x80, CHR 0xD0, CHR 0xB5, CHR 0xD0, CHR 0xBF, CHR 0xD0, CHR 0xBE, CHR 0xD0,
      CHR 0xB4, CHR 0xD0, CHR 0xB0, CHR 0xD0, CHR 0xB2, CHR 0xD0, CHR 0xB0, CHR 0xD1,
      CHR 0x82, CHR 0xD0, CHR 0xB5, CHR 0xD0, CHR 0xBB, CHR 0xD1, CHR 0x8C, CHR '':'',
      CHR '' '']"

definition txt_mark_1 :: string where
  "txt_mark_1 =
     [CHR 0xF0, CHR 0x9F, CHR 0x8E, CHR 0x93, CHR '' '', CHR 0xD0, CHR 0x92, CHR 0xD0,
      CHR 0xB0, CHR 0xD1, CHR 0x88, CHR 0xD0, CHR 0xB0, CHR '' '', CHR 0xD0, CHR 0xBE,
      CHR 0xD1, CHR 0x86, CHR 0xD0, CHR 0xB5, CHR 0xD0, CHR 0xBD, CHR 0xD0, CHR 0xBA,
      CHR 0xD0, CHR 0xB0, CHR '' '', CHR 0xD0, CHR 0xBF, CHR 0xD0, CHR 0xBE, CHR '' '',
      CHR 0xD0, CHR 0xBF, CHR 0xD1, CHR 0x80, CHR 0xD0, CHR 0xB5, CHR 0xD0, CHR 0xB4,
      CHR 0xD0, CHR 0xBC, CHR 0xD0, CHR 0xB5, CHR 0xD1, CHR 0x82, CHR 0xD1, CHR 0x83,
      CHR '' '', CHR ''<'', CHR ''b'', CHR ''>'']"

definition txt_mark_2 :: string where
  "txt_mark_2 =
     [CHR ''<'', CHR ''/'', CHR ''b'', CHR ''>'', CHR '' '', CHR 0xD0, CHR 0xBE, CHR 0xD0,
      CHR 0xB1, CHR 0xD0, CHR 0xBD, CHR 0xD0, CHR 0xBE, CHR 0xD0, CHR 0xB2, CHR 0xD0,
      CHR 0xBB, CHR 0xD0, CHR 0xB5, CHR 0xD0, CHR 0xBD, CHR 0xD0, CHR 0xB0, CHR '':'',
      CHR 0x0A, CHR 0xE2, CHR 0xAD, CHR 0x90, CHR '' '', CHR 0xD0, CHR 0x9E, CHR 0xD1,
      CHR 0x86, CHR 0xD0, CHR 0xB5, CHR 0xD0, CHR 0xBD, CHR 0xD0, CHR 0xBA, CHR 0xD0,
      CHR 0xB0, CHR '':'', CHR '' '', CHR ''<'', CHR ''b'', CHR ''>'']"

definition txt_mark_3 :: string where
  "txt_mark_3 =
     [CHR ''<'', CHR ''/'', CHR ''b'', CHR ''>'']"

section \<open>Outbound messages and the log\<close>

text \<open>
  \<^verbatim>\<open>bot.send_message\<close> either returns, raises \<^verbatim>\<open>TelegramBadRequest\<close>, or raises
  another exception. The transport is a function on an arbitrary state \<open>'w\<close> of the
  outside world, so the fate of a message may depend on everything sent before it.
  What a run leaves behind is a list of events: the messages that were delivered and
  the warning and error lines written to the log, in the order they happen.
  (Lines of level \<^verbatim>\<open>info\<close> follow each delivered message and are not recorded; neither
  is the pause \<^verbatim>\<open>asyncio.sleep(10)\<close> after it.)
\<close>

datatype send_result = Delivered | BadRequest | OtherFailure

type_synonym 'w transport = "'w \<Rightarrow> int \<Rightarrow> string \<Rightarrow> send_result \<times> 'w"

datatype log_line =
    ReminderSendWarning int
  | ReminderDateError int
  | ReminderUnknownError
  | MarkNoTelegramWarning int
  | MarkSendWarning int
  | MarkUnknownError int

datatype event = Sent int string | Logged log_line

section \<open>Mark service\<close>

text \<open>
  \<^verbatim>\<open>MarkUpdateItem\<close> of the batch endpoint. The service takes a list of any objects and
  tests \<^verbatim>\<open>raw_mark is None\<close> itself, so the mark is an optional string here.
\<close>

record mark_update_item =
  item_student_id :: int
  item_exam_id :: int
  item_mark :: "string option"

text \<open>
  Lines 66 to 78 of \<^verbatim>\<open>MarkService.batch_update_marks\<close>: the submitted text becomes
  \<open>None\<close> (``not graded''), an integer mark, or the exception of status 400.
\<close>

definition parse_mark :: "runtime \<Rightarrow> string option \<Rightarrow> exn + int option" where
  "parse_mark rt raw_mark =
     (case raw_mark of
        None \<Rightarrow> Inr None
      | Some r \<Rightarrow>
          if str_lower rt r \<in> set [txt_na, txt_net, ''''] then Inr None
          else (case int_of_str rt r of
                  None \<Rightarrow> Inl (HTTPException 400)
                | Some mark \<Rightarrow>
                    if mark < 0 \<or> mark > 5 then Inl (HTTPException 400)
                    else Inr (Some mark)))"

text \<open>
  \<^verbatim>\<open>ExamService.get_exam_details\<close>: \<^verbatim>\<open>scalar_one_or_none\<close> again, but an absent exam
  is the value \<open>None\<close> and not an exception.
\<close>

definition get_exam_details :: "int \<Rightarrow> database \<Rightarrow> exn + exam_row option" where
  "get_exam_details eid db =
     (case filter (\<lambda>e. exam_id e = eid) (db_exams db) of
        [] \<Rightarrow> Inr None
      | [exam] \<Rightarrow> Inr (Some exam)
      | _ \<Rightarrow> Inl (HTTPException 500))"

text \<open>
  The state of one batch. The session is opened with \<^verbatim>\<open>autoflush=False\<close>
  (\<^verbatim>\<open>core/database.py\<close>): a row changed in memory is seen by the later queries of the
  batch, since a query returns the object already loaded, while a row added with
  \<^verbatim>\<open>db.add\<close> is not flushed before \<^verbatim>\<open>commit\<close> and is not seen by them. So the state
  holds the loaded rows (\<open>bs_marks\<close>), the added objects (\<open>bs_added\<close>: student, exam,
  mark), the counter and the list of notifications.
\<close>

record batch_state =
  bs_marks :: "mark_row list"
  bs_added :: "(int \<times> int \<times> int option) list"
  updated_count :: int
  notifications :: "(int \<times> string \<times> int option) list"

definition is_mark_of :: "int \<Rightarrow> int \<Rightarrow> mark_row \<Rightarrow> bool" where
  "is_mark_of sid eid r = (mark_student_id r = sid \<and> mark_exam_id r = eid)"

text \<open>\<^verbatim>\<open>existing_mark.mark = mark\<close> on the row that \<^verbatim>\<open>.first()\<close> returned.\<close>

fun set_first_mark :: "int \<Rightarrow> int \<Rightarrow> int option \<Rightarrow> mark_row list \<Rightarrow> mark_row list" where
  "set_first_mark sid eid m [] = []"
| "set_first_mark sid eid m (r # rs) =
     (if is_mark_of sid eid r then r\<lparr>mark_value := m\<rparr> # rs
      else r # set_first_mark sid eid m rs)"

text \<open>The body of the loop of \<^verbatim>\<open>batch_update_marks\<close>, lines 55 to 100.\<close>

definition process_item ::
    "runtime \<Rightarrow> database \<Rightarrow> mark_update_item \<Rightarrow> batch_state \<Rightarrow> exn + batch_state" where
  "process_item rt db item st =
     (let sid = item_student_id item; eid = item_exam_id item in
      if sid = 0 \<or> eid = 0 then Inl (HTTPException 400)
      else
        (case parse_mark rt (item_mark item) of
           Inl e \<Rightarrow> Inl e
         | Inr mark \<Rightarrow>
             (case get_exam_details eid db of
                Inl e \<Rightarrow> Inl e
              | Inr exam \<Rightarrow>
                  (let exam_name = (case exam of Some e \<Rightarrow> exam_discipline e | None \<Rightarrow> txt_exam) in
                   (case find (is_mark_of sid eid) (bs_marks st) of
                      Some existing_mark \<Rightarrow>
                        if mark_value existing_mark \<noteq> mark
                        then Inr (st\<lparr>bs_marks := set_first_mark sid eid mark (bs_marks st),
                                      updated_count := updated_count st + 1,
                                      notifications := notifications st @ [(sid, exam_name, mark)]\<rparr>)
                        else Inr st
                    | None \<Rightarrow>
                        Inr (st\<lparr>bs_added := bs_added st @ [(sid, eid, mark)],
                                 updated_count := updated_count st + 1,
                                 notifications := notifications st @ [(sid, exam_name, mark)]\<rparr>))))))"

fun process_items ::
    "runtime \<Rightarrow> database \<Rightarrow> mark_update_item list \<Rightarrow> batch_state \<Rightarrow> exn + batch_state" where
  "process_items rt db [] st = Inr st"
| "process_items rt db (item # items) st =
     (case process_item rt db item st of
        Inl e \<Rightarrow> Inl e
      | Inr st' \<Rightarrow> process_items rt db items st')"

text \<open>
  \<^verbatim>\<open>await db.commit()\<close>. The added rows get the next values of the key sequence. The
  table declares \<^verbatim>\<open>student_id\<close> and \<^verbatim>\<open>exam_id\<close> as foreign keys
  (\<^verbatim>\<open>models/mark.py\<close>); a DBMS that checks them refuses a row whose student or exam does
  not exist, and the exception leaves the function through \<^verbatim>\<open>except Exception: raise\<close>.
\<close>

definition next_id :: "int list \<Rightarrow> int" where
  "next_id ids = fold max ids 0 + 1"

definition new_mark_rows :: "int \<Rightarrow> (int \<times> int \<times> int option) list \<Rightarrow> mark_row list" where
  "new_mark_rows first_id added =
     map (\<lambda>(k, (sid, eid, m)).
            \<lparr>mark_id = first_id + int k, mark_value = m, mark_exam_id = eid, mark_student_id = sid\<rparr>)
         (enumerate 0 added)"

definition references_ok :: "database \<Rightarrow> int \<times> int \<times> int option \<Rightarrow> bool" where
  "references_ok db a =
     (case a of (sid, eid, m) \<Rightarrow>
        sid \<in> set (map student_id (db_students db)) \<and> eid \<in> set (map exam_id (db_exams db)))"

definition commit_marks :: "database \<Rightarrow> batch_state \<Rightarrow> exn + database" where
  "commit_marks db st =
     (if list_all (references_ok db) (bs_added st)
      then Inr (db\<lparr>db_marks :=
                    bs_marks st @ new_mark_rows (next_id (map mark_id (bs_marks st))) (bs_added st)\<rparr>)
      else Inl IntegrityError)"

text \<open>
  \<^verbatim>\<open>MarkService.batch_update_marks\<close>. On success it returns \<open>updated_count\<close>; the model
  returns with it the list handed to \<^verbatim>\<open>asyncio.create_task(send_notifications_with_delay(...))\<close>
  and the committed database. An exception leaves the database as it was: nothing was
  committed.
\<close>

definition batch_update_marks ::
    "runtime \<Rightarrow> database \<Rightarrow> mark_update_item list
       \<Rightarrow> exn + (int \<times> (int \<times> string \<times> int option) list \<times> database)" where
  "batch_update_marks rt db marks_data =
     (case process_items rt db marks_data
             \<lparr>bs_marks = db_marks db, bs_added = [], updated_count = 0, notifications = []\<rparr> of
        Inl e \<Rightarrow> Inl e
      | Inr st \<Rightarrow>
          (case commit_marks db st of
             Inl e \<Rightarrow> Inl e
           | Inr db' \<Rightarrow> Inr (updated_count st, notifications st, db')))"

subsection \<open>Import of marks from a table\<close>

record mark_import =
  imp_id :: int
  imp_last_fist_name :: string
  imp_mark :: "string option"

text \<open>
  The messages appended to the list \<^verbatim>\<open>errors\<close>, one constructor per message text,
  with the fields of the entry that the text quotes.
\<close>

datatype import_error =
    BadNameFormat string
  | StudentNotFound string
  | MarkOutOfRange "string option" string
  | MarkNotANumber "string option" string

datatype mark_rejection = OutOfRange | NotANumber

text \<open>Lines 233 to 246 of \<^verbatim>\<open>import_marks_from_table\<close>.\<close>

definition parse_import_mark :: "runtime \<Rightarrow> string option \<Rightarrow> mark_rejection + int option" where
  "parse_import_mark rt entry_mark =
     (case entry_mark of
        None \<Rightarrow> Inr None
      | Some s \<Rightarrow>
          (let raw_mark = str_lower rt (str_strip rt s) in
           if raw_mark = txt_na \<or> raw_mark = ''na'' then Inr None
           else (case int_of_str rt raw_mark of
                   None \<Rightarrow> Inl NotANumber
                 | Some v \<Rightarrow>
                     if v \<notin> set [2, 3, 4, 5] then Inl OutOfRange
                     else Inr (Some v))))"

record import_state =
  is_marks :: "mark_row list"
  is_added :: "(int \<times> int \<times> int option) list"
  imported_count :: int
  import_errors :: "import_error list"

text \<open>
  The body of the loop, lines 212 to 266. Every rejected entry appends its message and
  goes on with the next entry (\<^verbatim>\<open>continue\<close>); nothing is raised.
\<close>

definition import_entry :: "runtime \<Rightarrow> database \<Rightarrow> mark_import \<Rightarrow> import_state \<Rightarrow> import_state" where
  "import_entry rt db entry st =
     (let eid = imp_id entry;
          name = imp_last_fist_name entry in
      (case str_split rt (str_strip rt name) of
         last_name # first_name # _ \<Rightarrow>
           (case find (\<lambda>s. ilike rt (student_first_name s) first_name
                            \<and> ilike rt (student_last_name s) last_name) (db_students db) of
              None \<Rightarrow> st\<lparr>import_errors := import_errors st @ [StudentNotFound name]\<rparr>
            | Some student \<Rightarrow>
                (case parse_import_mark rt (imp_mark entry) of
                   Inl OutOfRange \<Rightarrow>
                     st\<lparr>import_errors := import_errors st @ [MarkOutOfRange (imp_mark entry) name]\<rparr>
                 | Inl NotANumber \<Rightarrow>
                     st\<lparr>import_errors := import_errors st @ [MarkNotANumber (imp_mark entry) name]\<rparr>
                 | Inr v \<Rightarrow>
                     (case find (is_mark_of (student_id student) eid) (is_marks st) of
                        Some existing_mark \<Rightarrow>
                          st\<lparr>is_marks := set_first_mark (student_id student) eid v (is_marks st),
                               imported_count := imported_count st + 1\<rparr>
                      | None \<Rightarrow>
                          st\<lparr>is_added := is_added st @ [(student_id student, eid, v)],
                               imported_count := imported_count st + 1\<rparr>)))
       | _ \<Rightarrow> st\<lparr>import_errors := import_errors st @ [BadNameFormat name]\<rparr>))"

text \<open>
  \<^verbatim>\<open>import_marks_from_table\<close>: the loop, then the commit; a refused commit is an
  \<^verbatim>\<open>SQLAlchemyError\<close>, rolled back and raised as status 500.
\<close>

definition import_marks_from_table ::
    "runtime \<Rightarrow> database \<Rightarrow> mark_import list \<Rightarrow> exn + (int \<times> import_error list \<times> database)" where
  "import_marks_from_table rt db marks_data =
     (let st = fold (import_entry rt db) marks_data
                 \<lparr>is_marks = db_marks db, is_added = [], imported_count = 0, import_errors = []\<rparr> in
      if list_all (references_ok db) (is_added st)
      then Inr (imported_count st, import_errors st,
                db\<lparr>db_marks :=
                     is_marks st @ new_mark_rows (next_id (map mark_id (is_marks st))) (is_added st)\<rparr>)
      else Inl (HTTPException 500))"

subsection \<open>Notification of a changed mark\<close>

definition mark_message :: "runtime \<Rightarrow> string \<Rightarrow> int option \<Rightarrow> string" where
  "mark_message rt exam_name mark =
     txt_mark_1 @ exam_name @ txt_mark_2
       @ (case mark of Some m \<Rightarrow> str_of_int rt m | None \<Rightarrow> txt_na) @ txt_mark_3"

text \<open>
  \<^verbatim>\<open>notify_student_mark\<close> (\<^verbatim>\<open>utils/bot.py\<close>). The student is loaded with its
  \<^verbatim>\<open>telegram\<close> relationship, the row of \<^verbatim>\<open>telegram\<close> whose key the student's
  \<^verbatim>\<open>telegram_id\<close> holds. Both handlers of the function end in a log line, so the
  function returns in every case.
\<close>

definition notify_student_mark ::
    "runtime \<Rightarrow> 'w transport \<Rightarrow> database \<Rightarrow> int \<Rightarrow> string \<Rightarrow> int option \<Rightarrow> 'w \<Rightarrow> event list \<times> 'w" where
  "notify_student_mark rt send db sid exam_name mark w =
     (case find (\<lambda>s. student_id s = sid) (db_students db) of
        None \<Rightarrow> ([Logged (MarkNoTelegramWarning sid)], w)
      | Some student \<Rightarrow>
          (case find (\<lambda>t. Some (tg_id t) = student_telegram_id student) (db_telegrams db) of
             None \<Rightarrow> ([Logged (MarkNoTelegramWarning sid)], w)
           | Some telegram \<Rightarrow>
               if tg_telegram_id telegram = 0 then ([Logged (MarkNoTelegramWarning sid)], w)
               else
                 (let tg = tg_telegram_id telegram;
                      text = mark_message rt exam_name mark in
                  (case send w tg text of
                     (Delivered, w') \<Rightarrow> ([Sent tg text], w')
                   | (BadRequest, w') \<Rightarrow> ([Logged (MarkSendWarning sid)], w')
                   | (OtherFailure, w') \<Rightarrow> ([Logged (MarkUnknownError sid)], w')))))"

text \<open>
  \<^verbatim>\<open>send_notifications_with_delay\<close> (\<^verbatim>\<open>services/mark.py\<close>): one call of
  \<^verbatim>\<open>notify_student_mark\<close> per notification, in the order of the list. Its own
  \<^verbatim>\<open>except Exception\<close> encloses a call that returns in every case.
\<close>

fun send_notifications_with_delay ::
    "runtime \<Rightarrow> 'w transport \<Rightarrow> database \<Rightarrow> (int \<times> string \<times> int option) list \<Rightarrow> 'w
       \<Rightarrow> event list \<times> 'w" where
  "send_notifications_with_delay rt send db [] w = ([], w)"
| "send_notifications_with_delay rt send db ((sid, exam_name, mark) # rest) w =
     (let (evs, w') = notify_student_mark rt send db sid exam_name mark w;
          (evs', w'') = send_notifications_with_delay rt send db rest w'
      in (evs @ evs', w''))"

section \<open>Reminder scheduler\<close>

text \<open>
  The text of a reminder, lines 87 to 103 of \<^verbatim>\<open>send_exam_reminders\<close>. The column
  \<^verbatim>\<open>patronymic\<close> is not nullable, so \<^verbatim>\<open>patronymic or ''\<close> is the patronymic.
\<close>

definition curator_fio :: "runtime \<Rightarrow> curator_row \<Rightarrow> string" where
  "curator_fio rt c =
     str_strip rt (curator_last_name c @ '' '' @ curator_first_name c @ '' '' @ curator_patronymic c)"

definition reminder_text :: "runtime \<Rightarrow> exam_row \<Rightarrow> curator_row \<Rightarrow> int \<Rightarrow> string" where
  "reminder_text rt exam c days_left =
     (let when_text = (if days_left = 1 then txt_tomorrow else txt_in_3_days);
          type_name = (if str_lower rt (exam_type exam) = ''exam'' then txt_exam else txt_credit)
      in txt_reminder_1 @ type_name @ txt_reminder_2 @ exam_discipline exam @ txt_reminder_3
           @ when_text @ txt_reminder_4 @ exam_holding_date exam @ txt_reminder_5
           @ curator_fio rt c)"

text \<open>
  The inner loop, lines 96 to 108. Only \<^verbatim>\<open>TelegramBadRequest\<close> is caught inside the
  loop. Any other exception of \<^verbatim>\<open>send_message\<close> leaves the loop and is caught by the
  \<^verbatim>\<open>except Exception\<close> of the exam (line 111), which writes one error line; the
  recipients after it are not tried.
\<close>

fun deliver_reminders :: "'w transport \<Rightarrow> string \<Rightarrow> int list \<Rightarrow> 'w \<Rightarrow> event list \<times> 'w" where
  "deliver_reminders send text [] w = ([], w)"
| "deliver_reminders send text (tg # tgs) w =
     (case send w tg text of
        (Delivered, w') \<Rightarrow>
          (let (evs, w'') = deliver_reminders send text tgs w' in (Sent tg text # evs, w''))
      | (BadRequest, w') \<Rightarrow>
          (let (evs, w'') = deliver_reminders send text tgs w'
           in (Logged (ReminderSendWarning tg) # evs, w''))
      | (OtherFailure, w') \<Rightarrow> ([Logged ReminderUnknownError], w'))"

text \<open>
  The body of the loop over the exams, lines 85 to 112; \<open>today\<close> is the day number of
  \<^verbatim>\<open>datetime.now().date()\<close>. The exam was loaded with \<^verbatim>\<open>joinedload(Exam.curator)\<close>; were
  the curator absent, \<^verbatim>\<open>exam.curator.last_name\<close> would raise and line 111 would catch
  it. The same handler catches what the resolver raises.
\<close>

definition remind_exam ::
    "runtime \<Rightarrow> 'w transport \<Rightarrow> int \<Rightarrow> database \<Rightarrow> exam_row \<Rightarrow> 'w \<Rightarrow> event list \<times> 'w" where
  "remind_exam rt send today db exam w =
     (case strptime rt (exam_holding_date exam) of
        None \<Rightarrow> ([Logged (ReminderDateError (exam_id exam))], w)
      | Some exam_date \<Rightarrow>
          (case find (\<lambda>c. curator_id c = exam_curator_id exam) (db_curators db) of
             None \<Rightarrow> ([Logged ReminderUnknownError], w)
           | Some c \<Rightarrow>
               (let days_left = exam_date - today in
                if days_left \<in> set [1, 3] then
                  (case get_telegram_ids_by_exam_id (exam_id exam) db of
                     Inl e \<Rightarrow> ([Logged ReminderUnknownError], w)
                   | Inr telegram_ids \<Rightarrow>
                       deliver_reminders send (reminder_text rt exam c days_left) telegram_ids w)
                else ([], w))))"

fun scan_exams ::
    "runtime \<Rightarrow> 'w transport \<Rightarrow> int \<Rightarrow> database \<Rightarrow> exam_row list \<Rightarrow> 'w \<Rightarrow> event list \<times> 'w" where
  "scan_exams rt send today db [] w = ([], w)"
| "scan_exams rt send today db (exam # rest) w =
     (let (evs, w') = remind_exam rt send today db exam w;
          (evs', w'') = scan_exams rt send today db rest w'
      in (evs @ evs', w''))"

text \<open>The query of lines 77 to 82: the exams whose date string is not before today's.\<close>

definition upcoming_exams :: "runtime \<Rightarrow> int \<Rightarrow> database \<Rightarrow> exam_row list" where
  "upcoming_exams rt today db =
     filter (\<lambda>e. sql_ge rt (exam_holding_date e) (strftime rt today)) (db_exams db)"

definition send_exam_reminders ::
    "runtime \<Rightarrow> 'w transport \<Rightarrow> int \<Rightarrow> database \<Rightarrow> 'w \<Rightarrow> event list \<times> 'w" where
  "send_exam_reminders rt send today db w =
     scan_exams rt send today db (upcoming_exams rt today db) w"

section \<open>Role-scoped list queries\<close>

text \<open>
  The caller as \<^verbatim>\<open>get_current_user\<close> returns it: the payload of the token, which
  \<^verbatim>\<open>AuthService.create_token\<close> fills with \<^verbatim>\<open>sub\<close>, \<^verbatim>\<open>role\<close> and \<^verbatim>\<open>id\<close>.
  \<^verbatim>\<open>current_user.get("id")\<close> is \<open>None\<close> for a payload without the key; a comparison of a
  column with \<open>None\<close> selects no row of a column that is not nullable.
\<close>

record current_user =
  cu_sub :: string
  cu_role :: string
  cu_id :: "int option"

definition is_curator :: "current_user \<Rightarrow> bool" where
  "is_curator u = (cu_role u = ''curator'')"





text \<open>
  \<^verbatim>\<open>GroupService.get_all_groups\<close>: every group with the number of its students (outer
  join, grouped by the key of the group).
\<close>

definition select_groups :: "database \<Rightarrow> current_user \<Rightarrow> group_row list" where
  "select_groups db u =
     filter (\<lambda>g. \<not> is_curator u \<or> Some (group_curator_id g) = cu_id u) (db_groups db)"

record group_dict =
  gd_group_id :: int
  gd_name :: string
  gd_curator_id :: int
  gd_students_count :: nat

definition get_all_groups :: "database \<Rightarrow> current_user \<Rightarrow> group_dict list" where
  "get_all_groups db u =
     map (\<lambda>g. \<lparr>gd_group_id = group_id g, gd_name = group_name g, gd_curator_id = group_curator_id g,
               gd_students_count = length (filter (\<lambda>s. student_group_id s = group_id g) (db_students db))\<rparr>)
       (select_groups db u)"

text \<open>
  \<^verbatim>\<open>StudentService.get_all_students\<close>: for a curator the students are joined with
  their group and filtered by the curator of the group.
\<close>

definition get_all_students :: "database \<Rightarrow> current_user \<Rightarrow> student_row list" where
  "get_all_students db u =
     (if is_curator u
      then [s. s \<leftarrow> db_students db, g \<leftarrow> db_groups db,
               group_id g = student_group_id s, Some (group_curator_id g) = cu_id u]
      else db_students db)"

text \<open>
  \<^verbatim>\<open>StudentService.get_students_by_group_id\<close>: the students of one group, each with a
  grade: with an exam given, the mark of the student's first mark row of that exam,
  otherwise that of the student's first mark row. The function takes no caller and
  filters by no owner.
\<close>

definition get_students_by_group_id ::
    "int \<Rightarrow> database \<Rightarrow> int option \<Rightarrow> exn + (student_row \<times> int option) list" where
  "get_students_by_group_id gid db exam =
     (case find (\<lambda>g. group_id g = gid) (db_groups db) of
        None \<Rightarrow> Inl (HTTPException 404)
      | Some grp \<Rightarrow>
          Inr (map (\<lambda>student.
                      (let marks = filter (\<lambda>m. mark_student_id m = student_id student) (db_marks db);
                           grade = (case exam of
                                      Some eid \<Rightarrow>
                                        (case find (\<lambda>m. mark_exam_id m = eid) marks of
                                           Some m \<Rightarrow> mark_value m
                                         | None \<Rightarrow> None)
                                    | None \<Rightarrow>
                                        (case marks of [] \<Rightarrow> None | m # ms \<Rightarrow> mark_value m))
                       in (student, grade)))
                 (filter (\<lambda>s. student_group_id s = group_id grp) (db_students db))))"

text \<open>
  \<^verbatim>\<open>require_roles\<close> (\<^verbatim>\<open>utils/roles.py\<close>), and the endpoint \<^verbatim>\<open>get_students_by_id\<close>
  (\<^verbatim>\<open>GET /student/{group_id}/students\<close>) that serves the function above to
  administrators and curators. The endpoint does not pass the caller on. Its
  \<^verbatim>\<open>except Exception\<close> turns every exception of its body into status 500, the two 404
  included.
\<close>

definition require_roles :: "string list \<Rightarrow> current_user \<Rightarrow> exn + current_user" where
  "require_roles allowed_roles u =
     (if cu_role u \<notin> set allowed_roles then Inl (HTTPException 403) else Inr u)"

record student_response =
  sr_first_name :: string
  sr_last_name :: string
  sr_patronymic :: string
  sr_id :: int
  sr_grade :: "int option"

definition get_students_by_id ::
    "database \<Rightarrow> current_user \<Rightarrow> int \<Rightarrow> int \<Rightarrow> exn + student_response list" where
  "get_students_by_id db u gid eid =
     (case require_roles [''admin'', ''curator''] u of
        Inl e \<Rightarrow> Inl e
      | Inr caller \<Rightarrow>
          (case get_students_by_group_id gid db (Some eid) of
             Inl e \<Rightarrow> Inl (HTTPException 500)
           | Inr student_grade_pairs \<Rightarrow>
               if student_grade_pairs = [] then Inl (HTTPException 500)
               else Inr (map (\<lambda>(student, grade).
                                \<lparr>sr_first_name = student_first_name student,
                                 sr_last_name = student_last_name student,
                                 sr_patronymic = student_patronymic student,
                                 sr_id = student_id student,
                                 sr_grade = grade\<rparr>)
                           student_grade_pairs)))"

section \<open>Registration through the bot\<close>

subsection \<open>Lookup by name and binding of the chat\<close>

text \<open>
  \<^verbatim>\<open>StudentService.get_student_by_fio\<close> and \<^verbatim>\<open>CuratorService.get_curator_by_fio\<close>:
  the first row whose three name columns match the three patterns, or status 404.
\<close>

definition get_student_by_fio ::
    "runtime \<Rightarrow> database \<Rightarrow> string \<Rightarrow> string \<Rightarrow> string \<Rightarrow> exn + student_row" where
  "get_student_by_fio rt db first_name last_name patronymic =
     (case find (\<lambda>s. ilike rt (student_first_name s) first_name
                      \<and> ilike rt (student_last_name s) last_name
                      \<and> ilike rt (student_patronymic s) patronymic) (db_students db) of
        None \<Rightarrow> Inl (HTTPException 404)
      | Some student \<Rightarrow> Inr student)"

definition get_curator_by_fio ::
    "runtime \<Rightarrow> database \<Rightarrow> string \<Rightarrow> string \<Rightarrow> string \<Rightarrow> exn + curator_row" where
  "get_curator_by_fio rt db first_name last_name patronymic =
     (case find (\<lambda>c. ilike rt (curator_first_name c) first_name
                      \<and> ilike rt (curator_last_name c) last_name
                      \<and> ilike rt (curator_patronymic c) patronymic) (db_curators db) of
        None \<Rightarrow> Inl (HTTPException 404)
      | Some curator \<Rightarrow> Inr curator)"

fun update_first :: "('a \<Rightarrow> bool) \<Rightarrow> ('a \<Rightarrow> 'a) \<Rightarrow> 'a list \<Rightarrow> 'a list" where
  "update_first P f [] = []"
| "update_first P f (x # xs) = (if P x then f x # xs else x # update_first P f xs)"

text \<open>
  The row of \<^verbatim>\<open>telegram\<close> for a chat: the first row with this \<^verbatim>\<open>telegram_id\<close>, or a
  new row added and flushed, which gets the next key.
\<close>

definition telegram_for :: "database \<Rightarrow> int \<Rightarrow> telegram_row \<times> telegram_row list" where
  "telegram_for db chat =
     (case find (\<lambda>t. tg_telegram_id t = chat) (db_telegrams db) of
        Some telegram \<Rightarrow> (telegram, db_telegrams db)
      | None \<Rightarrow>
          (let telegram = \<lparr>tg_id = next_id (map tg_id (db_telegrams db)), tg_telegram_id = chat\<rparr>
           in (telegram, db_telegrams db @ [telegram])))"

text \<open>
  \<^verbatim>\<open>StudentService.set_student_password_and_telegram\<close>. The handler passes
  \<^verbatim>\<open>data.get("user_id")\<close>; without a stored identity no student is loaded, and whatever
  \<^verbatim>\<open>db.get\<close> does with \<open>None\<close>, the caller ends in its \<^verbatim>\<open>except Exception\<close>.
\<close>

definition set_student_password_and_telegram ::
    "runtime \<Rightarrow> database \<Rightarrow> int option \<Rightarrow> string \<Rightarrow> int \<Rightarrow> exn + (student_row \<times> database)" where
  "set_student_password_and_telegram rt db sid password chat =
     (case find (\<lambda>s. Some (student_id s) = sid) (db_students db) of
        None \<Rightarrow> Inl (HTTPException 404)
      | Some student \<Rightarrow>
          (let (telegram, telegrams) = telegram_for db chat;
               bind = (\<lambda>s. s\<lparr>student_password := Some (hash_password rt password),
                              student_telegram_id := Some (tg_id telegram),
                              student_verif := True\<rparr>)
           in Inr (bind student,
                   db\<lparr>db_students := update_first (\<lambda>s. Some (student_id s) = sid) bind (db_students db),
                      db_telegrams := telegrams\<rparr>)))"

text \<open>
  \<^verbatim>\<open>CuratorService.set_curator_password_and_telegram\<close>. The table \<^verbatim>\<open>curator\<close> has no
  column \<^verbatim>\<open>telegram_id\<close> (\<^verbatim>\<open>models/curator.py\<close>): the assignment
  \<^verbatim>\<open>curator.telegram_id = telegram.id\<close> sets an attribute of the object that no commit
  stores. The row of \<^verbatim>\<open>telegram\<close> is stored all the same.
\<close>

definition set_curator_password_and_telegram ::
    "runtime \<Rightarrow> database \<Rightarrow> int option \<Rightarrow> string \<Rightarrow> int \<Rightarrow> exn + (curator_row \<times> database)" where
  "set_curator_password_and_telegram rt db cid password chat =
     (case find (\<lambda>c. Some (curator_id c) = cid) (db_curators db) of
        None \<Rightarrow> Inl (HTTPException 404)
      | Some curator \<Rightarrow>
          (let (telegram, telegrams) = telegram_for db chat;
               bind = (\<lambda>c. c\<lparr>curator_password := hash_password rt password\<rparr>)
           in Inr (bind curator,
                   db\<lparr>db_curators := update_first (\<lambda>c. Some (curator_id c) = cid) bind (db_curators db),
                      db_telegrams := telegrams\<rparr>)))"

subsection \<open>The conversation\<close>

text \<open>
  The states of \<^verbatim>\<open>RegistrationStates\<close>, and the context that aiogram keeps per chat: the
  current state (\<open>None\<close> when there is none) and the data dictionary, whose keys are
  \<^verbatim>\<open>role\<close>, \<^verbatim>\<open>fio\<close>, \<^verbatim>\<open>fio_prompt_msg_id\<close> and \<^verbatim>\<open>user_id\<close>. \<^verbatim>\<open>state.clear()\<close> resets
  both.
\<close>

datatype registration_state =
    RS_choosing_role | RS_fio | RS_pwd | RS_user_id | RS_fio_prompt_msg_id
  | RS_login | RS_password | RS_start_data

record fsm_context =
  fsm_state :: "registration_state option"
  data_role :: "string option"
  data_fio :: "string option"
  data_fio_prompt_msg_id :: "int option"
  data_user_id :: "int option"

definition cleared :: fsm_context where
  "cleared = \<lparr>fsm_state = None, data_role = None, data_fio = None,
              data_fio_prompt_msg_id = None, data_user_id = None\<rparr>"

text \<open>An incoming text message: its text, its sender and its chat.\<close>

record message =
  msg_text :: string
  msg_from_user_id :: int
  msg_from_first_name :: string
  msg_chat_id :: int

text \<open>
  What a handler does to the chat, one constructor per fixed text of the source:
  \<open>AlreadyRegistered\<close> is the answer of line 258, \<open>FioInvalid\<close> that of line 314,
  \<open>AskPassword\<close> line 347, \<open>NotFoundReply\<close> line 351 (``not found, check the name and
  try again''), \<open>PasswordTooShort\<close> line 367, \<open>RegistrationOk\<close> line 394 with the login
  and the password it quotes, \<open>RegistrationFailed\<close> line 405.
\<close>

datatype reply =
    AlreadyRegistered
  | FioInvalid
  | AskPassword
  | NotFoundReply
  | PasswordTooShort
  | RegistrationOk "string option" string
  | RegistrationFailed

datatype bot_action =
    Answer reply
  | AnswerWelcomePhoto string
  | DeleteMessage int int

definition validate_fio :: "runtime \<Rightarrow> string \<Rightarrow> bool" where
  "validate_fio rt fio = (length (str_split rt fio) = 3)"

text \<open>\<^verbatim>\<open>send_welcome_photo\<close>, and \<^verbatim>\<open>start_command\<close> which calls it with the message.\<close>

definition send_welcome_photo :: "database \<Rightarrow> message \<Rightarrow> fsm_context \<Rightarrow> bot_action list \<times> fsm_context" where
  "send_welcome_photo db user st =
     (let telegram_id = msg_from_user_id user;
          all_tg_ids = map tg_telegram_id (db_telegrams db)
      in if telegram_id \<in> set all_tg_ids then ([Answer AlreadyRegistered], cleared)
         else ([AnswerWelcomePhoto (msg_from_first_name user)],
               cleared\<lparr>fsm_state := Some RS_choosing_role\<rparr>))"

definition start_command :: "database \<Rightarrow> message \<Rightarrow> fsm_context \<Rightarrow> bot_action list \<times> fsm_context" where
  "start_command db msg st = send_welcome_photo db msg st"

text \<open>
  \<^verbatim>\<open>menu_handler\<close>, the handler of the button \<^verbatim>\<open>menu\<close> under the answer of line 314.
  A callback query has the user who pressed the button (\<^verbatim>\<open>callback.from_user\<close>) and the
  message that carries the button (\<^verbatim>\<open>callback.message\<close>); that message is the answer
  the bot sent, so its sender is the bot. The handler calls \<^verbatim>\<open>send_welcome_photo\<close>
  with \<^verbatim>\<open>callback.message\<close>: the identifier tested there is the sender of that
  message, not the user who pressed the button.
\<close>

record callback_query =
  cb_data :: string
  cb_from_user_id :: int
  cb_message :: message

definition menu_handler ::
    "database \<Rightarrow> callback_query \<Rightarrow> fsm_context \<Rightarrow> bot_action list \<times> fsm_context" where
  "menu_handler db callback st = send_welcome_photo db (cb_message callback) st"

text \<open>
  \<^verbatim>\<open>fio_handler\<close>, registered for the state \<^verbatim>\<open>RegistrationStates.fio\<close>. The prompt is
  deleted when its identifier is stored (whether the deletion succeeds changes nothing
  else). The lookup raises when nobody matches; the handler's \<^verbatim>\<open>except Exception\<close>
  (line 349) answers and returns. It calls neither \<^verbatim>\<open>state.clear()\<close> nor
  \<^verbatim>\<open>state.set_state\<close>.
\<close>

definition fio_handler ::
    "runtime \<Rightarrow> database \<Rightarrow> message \<Rightarrow> fsm_context \<Rightarrow> bot_action list \<times> fsm_context" where
  "fio_handler rt db msg st =
     (let fio_input = str_strip rt (msg_text msg) in
      if \<not> validate_fio rt fio_input then ([Answer FioInvalid], st)
      else
        (let split_fio = str_split rt fio_input;
             st1 = st\<lparr>data_fio := Some (str_lower rt fio_input)\<rparr>;
             deleted = (case data_fio_prompt_msg_id st1 of
                          None \<Rightarrow> []
                        | Some prompt_msg_id \<Rightarrow>
                            if prompt_msg_id = 0 then []
                            else [DeleteMessage (msg_chat_id msg) prompt_msg_id]);
             found = (if data_role st1 = Some ''student''
                      then map_sum id student_id
                             (get_student_by_fio rt db (split_fio ! 1) (split_fio ! 0) (split_fio ! 2))
                      else map_sum id curator_id
                             (get_curator_by_fio rt db (split_fio ! 1) (split_fio ! 0) (split_fio ! 2)))
         in (case found of
               Inl e \<Rightarrow> (deleted @ [Answer NotFoundReply], st1)
             | Inr uid \<Rightarrow>
                 (deleted @ [Answer AskPassword],
                  st1\<lparr>data_user_id := Some uid, fsm_state := Some RS_pwd\<rparr>))))"

text \<open>
  \<^verbatim>\<open>pwd_handler\<close>, registered for the state \<^verbatim>\<open>RegistrationStates.pwd\<close>. A short
  password returns before the \<^verbatim>\<open>try\<close>, so the state stays; otherwise \<^verbatim>\<open>finally\<close>
  clears it.
\<close>

definition pwd_handler ::
    "runtime \<Rightarrow> database \<Rightarrow> message \<Rightarrow> fsm_context \<Rightarrow> bot_action list \<times> fsm_context \<times> database" where
  "pwd_handler rt db msg st =
     (let password = str_strip rt (msg_text msg) in
      if py_len password < 4 then ([Answer PasswordTooShort], st, db)
      else
        (let role = data_role st;
             user_id = data_user_id st;
             outcome = (if role = Some ''student''
                     then map_sum id (\<lambda>(s, db'). (student_login s, db'))
                            (set_student_password_and_telegram rt db user_id password (msg_from_user_id msg))
                     else map_sum id (\<lambda>(c, db'). (Some (curator_login c), db'))
                            (set_curator_password_and_telegram rt db user_id password (msg_from_user_id msg)))
         in (case outcome of
               Inl e \<Rightarrow> ([Answer RegistrationFailed], cleared, db)
             | Inr (login, db') \<Rightarrow> ([Answer (RegistrationOk login password)], cleared, db'))))"

section \<open>A runtime for evaluated examples\<close>

text \<open>
  The examples below are evaluated with the following runtime. On ASCII input it
  computes what CPython computes for: \<^verbatim>\<open>lower\<close>, \<^verbatim>\<open>strip\<close> and \<^verbatim>\<open>split\<close> (white space
  being the ten ASCII characters that \<^verbatim>\<open>str.isspace\<close> accepts); \<^verbatim>\<open>int\<close> of an optional
  sign followed by decimal digits; \<^verbatim>\<open>str\<close> of an integer; \<^verbatim>\<open>strptime\<close> and \<^verbatim>\<open>strftime\<close> of dates
  written \<^verbatim>\<open>YYYY-MM-DD\<close> with four, two and two digits. Strings are compared byte by
  byte, \<open>ilike\<close> is equality up to case of a pattern without wild cards, and the
  password hash is a stand-in. No theorem depends on it.
\<close>

definition byte :: "char \<Rightarrow> nat" where
  "byte c = of_char c"

definition ascii_lower :: "string \<Rightarrow> string" where
  "ascii_lower s = map (\<lambda>c. if 65 \<le> byte c \<and> byte c \<le> 90 then char_of (byte c + 32) else c) s"

definition is_space :: "char \<Rightarrow> bool" where
  "is_space c =
     (c \<in> set [CHR '' '', CHR 0x09, CHR 0x0A, CHR 0x0B, CHR 0x0C, CHR 0x0D,
                CHR 0x1C, CHR 0x1D, CHR 0x1E, CHR 0x1F])"

definition ascii_strip :: "string \<Rightarrow> string" where
  "ascii_strip s = rev (dropWhile is_space (rev (dropWhile is_space s)))"

fun split_acc :: "string \<Rightarrow> string \<Rightarrow> string list" where
  "split_acc cur [] = (if cur = [] then [] else [rev cur])"
| "split_acc cur (c # cs) =
     (if is_space c then (if cur = [] then split_acc [] cs else rev cur # split_acc [] cs)
      else split_acc (c # cur) cs)"

definition ascii_split :: "string \<Rightarrow> string list" where
  "ascii_split s = split_acc [] s"

definition is_digit :: "char \<Rightarrow> bool" where
  "is_digit c = (48 \<le> byte c \<and> byte c \<le> 57)"

definition digits_value :: "string \<Rightarrow> int" where
  "digits_value ds = fold (\<lambda>c n. 10 * n + (int (byte c) - 48)) ds 0"

definition digits_opt :: "string \<Rightarrow> int option" where
  "digits_opt ds = (if ds \<noteq> [] \<and> list_all is_digit ds then Some (digits_value ds) else None)"

definition ascii_int :: "string \<Rightarrow> int option" where
  "ascii_int s =
     (case ascii_strip s of
        [] \<Rightarrow> None
      | c # cs \<Rightarrow>
          if c = CHR ''-'' then map_option uminus (digits_opt cs)
          else if c = CHR ''+'' then digits_opt cs
          else digits_opt (c # cs))"

definition digit_char :: "nat \<Rightarrow> char" where
  "digit_char d = char_of (48 + d)"

fun nat_digits :: "nat \<Rightarrow> nat \<Rightarrow> string \<Rightarrow> string" where
  "nat_digits 0 n acc = acc"
| "nat_digits (Suc fuel) n acc =
     (if n < 10 then digit_char n # acc
      else nat_digits fuel (n div 10) (digit_char (n mod 10) # acc))"

definition ascii_str :: "int \<Rightarrow> string" where
  "ascii_str i =
     (if i < 0 then CHR ''-'' # nat_digits (Suc (nat (- i))) (nat (- i)) []
      else nat_digits (Suc (nat i)) (nat i) [])"

definition is_leap :: "int \<Rightarrow> bool" where
  "is_leap y = (y mod 4 = 0 \<and> (y mod 100 \<noteq> 0 \<or> y mod 400 = 0))"

definition days_in_month :: "int \<Rightarrow> int \<Rightarrow> int" where
  "days_in_month y m =
     (if m = 2 then (if is_leap y then 29 else 28)
      else if m \<in> set [4, 6, 9, 11] then 30 else 31)"

definition days_before_month :: "int \<Rightarrow> int \<Rightarrow> int" where
  "days_before_month y m = sum_list (map (days_in_month y) [1..m - 1])"

definition ymd_to_ordinal :: "int \<Rightarrow> int \<Rightarrow> int \<Rightarrow> int" where
  "ymd_to_ordinal y m d =
     (let p = y - 1 in p * 365 + p div 4 - p div 100 + p div 400) + days_before_month y m + d"

definition iso_strptime :: "string \<Rightarrow> int option" where
  "iso_strptime s =
     (if length s = 10 \<and> s ! 4 = CHR ''-'' \<and> s ! 7 = CHR ''-'' then
        (case (digits_opt (take 4 s), digits_opt (take 2 (drop 5 s)), digits_opt (drop 8 s)) of
           (Some y, Some m, Some d) \<Rightarrow>
             if 1 \<le> y \<and> 1 \<le> m \<and> m \<le> 12 \<and> 1 \<le> d \<and> d \<le> days_in_month y m
             then Some (ymd_to_ordinal y m d) else None
         | _ \<Rightarrow> None)
      else None)"

definition pad :: "nat \<Rightarrow> string \<Rightarrow> string" where
  "pad n s = replicate (n - length s) CHR ''0'' @ s"

text \<open>The civil date of a day number, as \<^verbatim>\<open>_ord2ymd\<close> of CPython's \<^verbatim>\<open>datetime\<close> finds it.\<close>

definition ordinal_to_ymd :: "int \<Rightarrow> int \<times> int \<times> int" where
  "ordinal_to_ymd ordinal =
     (let n = ordinal - 1;
          n400 = n div 146097; n = n mod 146097;
          n100 = n div 36524; n = n mod 36524;
          n4 = n div 1461; n = n mod 1461;
          n1 = n div 365; n = n mod 365;
          year = n400 * 400 + 1 + n100 * 100 + n4 * 4 + n1
      in if n1 = 4 \<or> n100 = 4 then (year - 1, 12, 31)
         else
           (let month = (n + 50) div 32;
                preceding = days_before_month year month;
                month' = (if preceding > n then month - 1 else month);
                preceding' = (if preceding > n then preceding - days_in_month year month' else preceding)
            in (year, month', n - preceding' + 1)))"

definition iso_strftime :: "int \<Rightarrow> string" where
  "iso_strftime ordinal =
     (case ordinal_to_ymd ordinal of
        (y, m, d) \<Rightarrow> pad 4 (ascii_str y) @ ''-'' @ pad 2 (ascii_str m) @ ''-'' @ pad 2 (ascii_str d))"

fun bytes_ge :: "string \<Rightarrow> string \<Rightarrow> bool" where
  "bytes_ge a [] = True"
| "bytes_ge [] (b # bs) = False"
| "bytes_ge (a # as) (b # bs) =
     (if byte a = byte b then bytes_ge as bs else byte b < byte a)"

definition example_runtime :: runtime where
  "example_runtime =
     \<lparr>str_lower = ascii_lower, str_strip = ascii_strip, str_split = ascii_split,
      int_of_str = ascii_int, str_of_int = ascii_str,
      strptime = iso_strptime, strftime = iso_strftime,
      sql_ge = bytes_ge,
      ilike = (\<lambda>v p. ascii_lower v = ascii_lower p),
      hash_password = (\<lambda>p. ''hash:'' @ p)\<rparr>"

section \<open>Stated contracts\<close>

text \<open>
  The recipients of an exam in the words of the specification: the external chat
  identifiers of the students of the exam's group that have a linked handle, that is,
  whose \<^verbatim>\<open>telegram_id\<close> is the key of a row of \<^verbatim>\<open>telegram\<close>.
\<close>

definition handles_of_group :: "database \<Rightarrow> int \<Rightarrow> int set" where
  "handles_of_group db g =
     {h. \<exists>s \<in> set (db_students db). student_group_id s = g \<and>
           (\<exists>t \<in> set (db_telegrams db). student_telegram_id s = Some (tg_id t) \<and> tg_telegram_id t = h)}"

section \<open>An example database\<close>

text \<open>
  Two curators, of whom the second owns no group but examines one; two groups; four
  students, of whom the second has no chat; four exams, dated three days, one day and
  ten days after 10 June 2025 (day 739412), and one with a date that does not parse;
  three marks of the first exam.
\<close>

definition example_today :: int where
  "example_today = 739412"

definition example_db :: database where
  "example_db =
     \<lparr>db_curators =
        [\<lparr>curator_id = 1, curator_login = ''petrov'', curator_password = ''x'',
          curator_first_name = ''Petr'', curator_last_name = ''Petrov'',
          curator_patronymic = ''Petrovich''\<rparr>,
         \<lparr>curator_id = 2, curator_login = ''sidorova'', curator_password = ''y'',
          curator_first_name = ''Anna'', curator_last_name = ''Sidorova'',
          curator_patronymic = ''Ivanovna''\<rparr>],
      db_groups =
        [\<lparr>group_id = 1, group_name = ''IS-21'', group_curator_id = 1\<rparr>,
         \<lparr>group_id = 2, group_name = ''IS-22'', group_curator_id = 1\<rparr>],
      db_students =
        [\<lparr>student_id = 1, student_login = Some ''ivanovII'', student_password = Some ''p'',
          student_first_name = ''Ivan'', student_last_name = ''Ivanov'',
          student_patronymic = ''Ivanovich'', student_group_id = 1,
          student_telegram_id = Some 1, student_verif = True\<rparr>,
         \<lparr>student_id = 2, student_login = Some ''orlovaOP'', student_password = None,
          student_first_name = ''Olga'', student_last_name = ''Orlova'',
          student_patronymic = ''Pavlovna'', student_group_id = 1,
          student_telegram_id = None, student_verif = False\<rparr>,
         \<lparr>student_id = 3, student_login = Some ''smirnovSS'', student_password = Some ''q'',
          student_first_name = ''Sergey'', student_last_name = ''Smirnov'',
          student_patronymic = ''Sergeevich'', student_group_id = 2,
          student_telegram_id = Some 2, student_verif = True\<rparr>,
         \<lparr>student_id = 4, student_login = Some ''volkovaVV'', student_password = Some ''r'',
          student_first_name = ''Vera'', student_last_name = ''Volkova'',
          student_patronymic = ''Viktorovna'', student_group_id = 2,
          student_telegram_id = Some 3, student_verif = True\<rparr>],
      db_exams =
        [\<lparr>exam_id = 10, exam_type = ''exam'', exam_semester = 2, exam_course = 1,
          exam_discipline = ''Algebra'', exam_holding_date = ''2025-06-13'', exam_link = None,
          exam_group_id = 1, exam_curator_id = 1\<rparr>,
         \<lparr>exam_id = 11, exam_type = ''credits'', exam_semester = 2, exam_course = 1,
          exam_discipline = ''Physics'', exam_holding_date = ''2025-06-11'', exam_link = None,
          exam_group_id = 2, exam_curator_id = 2\<rparr>,
         \<lparr>exam_id = 12, exam_type = ''exam'', exam_semester = 2, exam_course = 1,
          exam_discipline = ''History'', exam_holding_date = ''2025-06-20'', exam_link = None,
          exam_group_id = 1, exam_curator_id = 1\<rparr>,
         \<lparr>exam_id = 13, exam_type = ''exam'', exam_semester = 2, exam_course = 1,
          exam_discipline = ''Logic'', exam_holding_date = ''2025/06/13'', exam_link = None,
          exam_group_id = 1, exam_curator_id = 1\<rparr>],
      db_marks =
        [\<lparr>mark_id = 1, mark_value = Some 5, mark_exam_id = 10, mark_student_id = 1\<rparr>,
         \<lparr>mark_id = 2, mark_value = Some 3, mark_exam_id = 10, mark_student_id = 2\<rparr>,
         \<lparr>mark_id = 3, mark_value = None, mark_exam_id = 10, mark_student_id = 3\<rparr>],
      db_telegrams =
        [\<lparr>tg_id = 1, tg_telegram_id = 1001\<rparr>,
         \<lparr>tg_id = 2, tg_telegram_id = 1002\<rparr>,
         \<lparr>tg_id = 3, tg_telegram_id = 1003\<rparr>]\<rparr>"

text \<open>A transport that delivers everything, and one on which the chat 1002 fails
  with an exception other than \<^verbatim>\<open>TelegramBadRequest\<close>.\<close>

definition all_delivered :: "unit transport" where
  "all_delivered w chat text = (Delivered, w)"

definition chat_1002_fails :: "unit transport" where
  "chat_1002_fails w chat text = (if chat = 1002 then (OtherFailure, w) else (Delivered, w))"

text \<open>Three callers: the two curators and an administrator.\<close>

definition curator_one :: current_user where
  "curator_one = \<lparr>cu_sub = ''petrov'', cu_role = ''curator'', cu_id = Some 1\<rparr>"

definition curator_two :: current_user where
  "curator_two = \<lparr>cu_sub = ''sidorova'', cu_role = ''curator'', cu_id = Some 2\<rparr>"


text \<open>
  A batch of three items for the first exam: the first submits the mark the row holds,
  the other two change theirs. And an item for a student and an exam without a row,
  with the empty text, which stands for ``not graded''.
\<close>

definition example_batch :: "mark_update_item list" where
  "example_batch =
     [\<lparr>item_student_id = 1, item_exam_id = 10, item_mark = Some ''5''\<rparr>,
      \<lparr>item_student_id = 2, item_exam_id = 10, item_mark = Some ''4''\<rparr>,
      \<lparr>item_student_id = 3, item_exam_id = 10, item_mark = Some ''3''\<rparr>]"

definition example_new_item :: mark_update_item where
  "example_new_item = \<lparr>item_student_id = 4, item_exam_id = 11, item_mark = Some ''''\<rparr>"

definition initial_state :: "database \<Rightarrow> batch_state" where
  "initial_state db =
     \<lparr>bs_marks = db_marks db, bs_added = [], updated_count = 0, notifications = []\<rparr>"

text \<open>
  Items and table entries with marks outside the range of the specification: the marks 0
  and 7 for the batch update, the mark 7 for the import.
\<close>

definition example_item_zero :: mark_update_item where
  "example_item_zero = \<lparr>item_student_id = 1, item_exam_id = 10, item_mark = Some ''0''\<rparr>"

definition example_item_seven :: mark_update_item where
  "example_item_seven = \<lparr>item_student_id = 2, item_exam_id = 10, item_mark = Some ''7''\<rparr>"

definition example_entry_seven :: mark_import where
  "example_entry_seven = \<lparr>imp_id = 10, imp_last_fist_name = ''Ivanov Ivan'', imp_mark = Some ''7''\<rparr>"

text \<open>
  Conversations: a chat in the state \<open>RS_fio\<close> that chose the role of a student and
  enters a name nobody has; the chat 2002 of the second student, not bound so far, in
  the state \<open>RS_pwd\<close> after its name was found, entering a password.
\<close>

definition example_fio_context :: fsm_context where
  "example_fio_context =
     \<lparr>fsm_state = Some RS_fio, data_role = Some ''student'', data_fio = None,
      data_fio_prompt_msg_id = Some 77, data_user_id = None\<rparr>"

definition example_unknown_name :: message where
  "example_unknown_name =
     \<lparr>msg_text = ''Sidorov Sidor Sidorovich'', msg_from_user_id = 2002,
      msg_from_first_name = ''Sidor'', msg_chat_id = 2002\<rparr>"

definition example_pwd_context :: fsm_context where
  "example_pwd_context =
     \<lparr>fsm_state = Some RS_pwd, data_role = Some ''student'',
      data_fio = Some ''orlova olga pavlovna'', data_fio_prompt_msg_id = Some 78,
      data_user_id = Some 2\<rparr>"

definition example_password :: message where
  "example_password =
     \<lparr>msg_text = ''secret'', msg_from_user_id = 2002,
      msg_from_first_name = ''Olga'', msg_chat_id = 2002\<rparr>"

definition example_start :: message where
  "example_start =
     \<lparr>msg_text = ''/start'', msg_from_user_id = 2002,
      msg_from_first_name = ''Olga'', msg_chat_id = 2002\<rparr>"

text \<open>The state in which an import starts.\<close>

definition initial_import_state :: "database \<Rightarrow> import_state" where
  "initial_import_state db =
     \<lparr>is_marks = db_marks db, is_added = [], imported_count = 0, import_errors = []\<rparr>"

text \<open>
  The button \<^verbatim>\<open>menu\<close> pressed by the user 1001, who is bound to the first student,
  under an answer that the bot (user 999) sent to the chat 1001. And a \<^verbatim>\<open>/start\<close> of the
  same user.
\<close>

definition example_menu :: callback_query where
  "example_menu =
     \<lparr>cb_data = ''menu'', cb_from_user_id = 1001,
      cb_message = \<lparr>msg_text = ''...'', msg_from_user_id = 999,
                    msg_from_first_name = ''Navigator'', msg_chat_id = 1001\<rparr>\<rparr>"

definition example_start_registered :: message where
  "example_start_registered =
     \<lparr>msg_text = ''/start'', msg_from_user_id = 1001,
      msg_from_first_name = ''Ivan'', msg_chat_id = 1001\<rparr>"

section \<open>Verified properties\<close>

lemma filter_unique_key:
  "distinct (map f xs) \<Longrightarrow> x \<in> set xs \<Longrightarrow> filter (\<lambda>e. f e = f x) xs = [x]"
proof (induction xs)
  case Nil
  then show ?case by simp
next
  case (Cons a xs)
  show ?case
  proof (cases "a = x")
    case True
    from Cons.prems(1) True have "f x \<notin> f ` set xs" by simp
    then have "\<forall>e\<in>set xs. f e \<noteq> f x" by (metis image_eqI)
    then have "filter (\<lambda>e. f e = f x) xs = []"
      by (simp add: filter_empty_conv)
    with True show ?thesis by simp
  next
    case False
    with Cons.prems have "x \<in> set xs" by simp
    moreover from this Cons.prems(1) have "f a \<noteq> f x" by auto
    ultimately show ?thesis using Cons by simp
  qed
qed

subsection \<open>Recipient resolver\<close>

lemma resolver_not_found:
  "eid \<notin> set (map exam_id (db_exams db))
     \<Longrightarrow> get_telegram_ids_by_exam_id eid db = Inl (HTTPException 404)"
proof -
  assume "eid \<notin> set (map exam_id (db_exams db))"
  then have "filter (\<lambda>e. exam_id e = eid) (db_exams db) = []"
    by (auto simp: filter_empty_conv)
  then show ?thesis by (simp add: get_telegram_ids_by_exam_id_def)
qed

lemma resolver_found:
  assumes pk: "distinct (map exam_id (db_exams db))"
    and ex: "exam \<in> set (db_exams db)"
  shows "get_telegram_ids_by_exam_id (exam_id exam) db =
           Inr [tg_telegram_id t.
                  t \<leftarrow> db_telegrams db, s \<leftarrow> db_students db,
                  student_telegram_id s = Some (tg_id t),
                  student_group_id s = exam_group_id exam,
                  student_telegram_id s \<noteq> None]"
  using filter_unique_key [OF pk ex]
  by (simp add: get_telegram_ids_by_exam_id_def)

lemma resolver_handles:
  "set [tg_telegram_id t.
          t \<leftarrow> db_telegrams db, s \<leftarrow> db_students db,
          student_telegram_id s = Some (tg_id t),
          student_group_id s = g,
          student_telegram_id s \<noteq> None] = handles_of_group db g"
  by (auto simp: handles_of_group_def)

text \<open>
  C2. Provided the key of \<^verbatim>\<open>exam\<close> is unique: for an identifier that no exam has, the
  resolver raises the exception of status 404; for the identifier of an exam it returns
  a list whose elements are exactly the chat identifiers of the students of the exam's
  group that have a linked handle (so never one of a student without a handle), and
  the empty list when there is no such student.
\<close>

theorem resolver_returns_linked_handles:
  assumes pk: "distinct (map exam_id (db_exams db))"
  shows "(eid \<notin> set (map exam_id (db_exams db))
            \<longrightarrow> get_telegram_ids_by_exam_id eid db = Inl (HTTPException 404))
       \<and> (\<forall>exam \<in> set (db_exams db). exam_id exam = eid \<longrightarrow>
            (\<exists>ids. get_telegram_ids_by_exam_id eid db = Inr ids
                 \<and> set ids = handles_of_group db (exam_group_id exam)
                 \<and> (handles_of_group db (exam_group_id exam) = {} \<longrightarrow> ids = [])))"
proof (intro conjI impI ballI)
  assume "eid \<notin> set (map exam_id (db_exams db))"
  then show "get_telegram_ids_by_exam_id eid db = Inl (HTTPException 404)"
    by (rule resolver_not_found)
next
  fix exam
  assume ex: "exam \<in> set (db_exams db)" and eid: "exam_id exam = eid"
  from resolver_found [OF pk ex] eid
  obtain ids where ids: "get_telegram_ids_by_exam_id eid db = Inr ids"
    and set_ids: "set ids = handles_of_group db (exam_group_id exam)"
    using resolver_handles [where db = db and g = "exam_group_id exam"] by auto
  from set_ids have "handles_of_group db (exam_group_id exam) = {} \<longrightarrow> ids = []" by auto
  with ids set_ids
  show "\<exists>ids. get_telegram_ids_by_exam_id eid db = Inr ids
              \<and> set ids = handles_of_group db (exam_group_id exam)
              \<and> (handles_of_group db (exam_group_id exam) = {} \<longrightarrow> ids = [])"
    by blast
qed

theorem resolver_returns_linked_handles_witness:
  "distinct (map exam_id (db_exams example_db))
   \<and> get_telegram_ids_by_exam_id 99 example_db = Inl (HTTPException 404)
   \<and> (\<exists>ids. get_telegram_ids_by_exam_id 10 example_db = Inr ids
          \<and> set ids = handles_of_group example_db 1 \<and> ids = [1001])
   \<and> get_telegram_ids_by_exam_id 12 (example_db\<lparr>db_students := []\<rparr>) = Inr []"
proof -
  let ?none = "example_db\<lparr>db_students := []\<rparr>"
  have pk: "distinct (map exam_id (db_exams example_db))"
    by (simp add: example_db_def)
  have pk': "distinct (map exam_id (db_exams ?none))"
    by (simp add: example_db_def)
  have nf: "get_telegram_ids_by_exam_id 99 example_db = Inl (HTTPException 404)"
    using resolver_returns_linked_handles [OF pk, of 99] by (simp add: example_db_def)
  have ev: "get_telegram_ids_by_exam_id 10 example_db = Inr [1001]"
    by (simp add: get_telegram_ids_by_exam_id_def example_db_def)
  have ex: "hd (db_exams example_db) \<in> set (db_exams example_db)"
    and ex_id: "exam_id (hd (db_exams example_db)) = 10"
    and ex_group: "exam_group_id (hd (db_exams example_db)) = 1"
    by (simp_all add: example_db_def)
  from resolver_returns_linked_handles [OF pk, of 10] ex ex_id
  have "\<exists>ids. get_telegram_ids_by_exam_id 10 example_db = Inr ids
          \<and> set ids = handles_of_group example_db (exam_group_id (hd (db_exams example_db)))"
    by blast
  with ev ex_group
  have found: "\<exists>ids. get_telegram_ids_by_exam_id 10 example_db = Inr ids
          \<and> set ids = handles_of_group example_db 1 \<and> ids = [1001]"
    by auto
  have ex': "db_exams ?none ! 2 \<in> set (db_exams ?none)"
    and ex_id': "exam_id (db_exams ?none ! 2) = 12"
    and empty: "handles_of_group ?none (exam_group_id (db_exams ?none ! 2)) = {}"
    by (simp_all add: example_db_def handles_of_group_def)
  from resolver_returns_linked_handles [OF pk', of 12] ex' ex_id' empty
  have none: "get_telegram_ids_by_exam_id 12 ?none = Inr []"
    by blast
  from pk nf found none show ?thesis by blast
qed

subsection \<open>Role-scoped list queries\<close>


lemma concat_map_empty: "(\<And>x. x \<in> set xs \<Longrightarrow> f x = []) \<Longrightarrow> concat (map f xs) = []"
  by (induction xs) auto




text \<open>
  The listing of the students of one group, served to administrators and curators, is
  not handed the caller. Past the check of the role its result is the same for every
  caller: all the students of the asked group, whoever owns it. So a curator is listed
  the students of a group of another curator, which \<^verbatim>\<open>get_all_students\<close> leaves out.
\<close>

lemma get_students_by_group_id_students:
  "get_students_by_group_id gid db exam = Inr ps
     \<Longrightarrow> map fst ps = filter (\<lambda>s. student_group_id s = gid) (db_students db)"
proof -
  assume some: "get_students_by_group_id gid db exam = Inr ps"
  then obtain grp where
    found: "find (\<lambda>g. group_id g = gid) (db_groups db) = Some grp"
    by (cases "find (\<lambda>g. group_id g = gid) (db_groups db)")
       (simp_all add: get_students_by_group_id_def)
  then have gid: "group_id grp = gid"
    by (auto simp: find_Some_iff)
  from some found gid show ?thesis
    unfolding get_students_by_group_id_def
    by (auto simp: Let_def comp_def)
qed

lemma students_by_group_ignores_owner:
  "cu_role u \<in> {''admin'', ''curator''} \<Longrightarrow> cu_role u' \<in> {''admin'', ''curator''}
     \<Longrightarrow> get_students_by_id db u gid eid = get_students_by_id db u' gid eid"
  by (simp add: get_students_by_id_def require_roles_def)

lemma students_by_group_lists_whole_group:
  assumes role: "cu_role u \<in> {''admin'', ''curator''}"
    and grp: "\<exists>g \<in> set (db_groups db). group_id g = gid"
    and nonempty: "\<exists>s \<in> set (db_students db). student_group_id s = gid"
  shows "\<exists>rs. get_students_by_id db u gid eid = Inr rs
           \<and> map sr_id rs = map student_id
                (filter (\<lambda>s. student_group_id s = gid) (db_students db))"
proof -
  from grp obtain g where "find (\<lambda>g. group_id g = gid) (db_groups db) = Some g"
    by (cases "find (\<lambda>g. group_id g = gid) (db_groups db)") (auto simp: find_None_iff)
  then obtain ps where some: "get_students_by_group_id gid db (Some eid) = Inr ps"
    by (simp add: get_students_by_group_id_def)
  note sts = get_students_by_group_id_students [OF some]
  from nonempty have "filter (\<lambda>s. student_group_id s = gid) (db_students db) \<noteq> []"
    by (auto simp: filter_empty_conv)
  with sts have ne: "ps \<noteq> []" by auto
  from role have ok: "require_roles [''admin'', ''curator''] u = Inr u"
    by (auto simp: require_roles_def)
  let ?rs = "map (\<lambda>(student, grade).
                                \<lparr>sr_first_name = student_first_name student,
                                 sr_last_name = student_last_name student,
                                 sr_patronymic = student_patronymic student,
                                 sr_id = student_id student,
                                 sr_grade = grade\<rparr>) ps"
  have res: "get_students_by_id db u gid eid = Inr ?rs"
    using ok some ne by (simp add: get_students_by_id_def)
  have "map sr_id ?rs = map student_id (map fst ps)"
    by (simp add: comp_def case_prod_beta)
  with sts res show ?thesis by simp
qed

text \<open>
  In the example database the second curator owns no group, and both groups belong to
  the first. The listings of groups and of students give the second curator nothing;
  the listing of the students of group 1 gives the same curator the students 1 and 2
  with their marks of the exam 10, as it gives them to the first curator.
\<close>

theorem students_by_group_not_scoped_example:
  "is_curator curator_two
   \<and> map group_curator_id (db_groups example_db) = [1, 1]
   \<and> cu_id curator_two = Some 2
   \<and> get_all_groups example_db curator_two = []
   \<and> get_all_students example_db curator_two = []
   \<and> map_sum id (map (\<lambda>r. (sr_id r, sr_grade r)))
        (get_students_by_id example_db curator_two 1 10) = Inr [(1, Some 5), (2, Some 3)]
   \<and> get_students_by_id example_db curator_two 1 10
        = get_students_by_id example_db curator_one 1 10"
  by code_simp

subsection \<open>Mark service\<close>

lemma parse_mark_error: "parse_mark rt raw = Inl e \<Longrightarrow> e = HTTPException 400"
  by (auto simp: parse_mark_def split: option.splits if_splits)

lemma filter_key_at_most_one:
  "distinct (map f xs) \<Longrightarrow> length (filter (\<lambda>e. f e = k) xs) \<le> 1"
proof (induction xs)
  case Nil
  then show ?case by simp
next
  case (Cons a xs)
  show ?case
  proof (cases "f a = k")
    case True
    with Cons.prems have "k \<notin> f ` set xs" by simp
    then have "\<forall>e\<in>set xs. f e \<noteq> k" by (metis image_eqI)
    then have "filter (\<lambda>e. f e = k) xs = []" by (simp add: filter_empty_conv)
    with True show ?thesis by simp
  next
    case False
    with Cons show ?thesis by simp
  qed
qed

lemma get_exam_details_total:
  assumes "distinct (map exam_id (db_exams db))"
  shows "\<exists>x. get_exam_details eid db = Inr x"
proof -
  have "length (filter (\<lambda>e. exam_id e = eid) (db_exams db)) \<le> 1"
    using assms by (rule filter_key_at_most_one)
  then show ?thesis
    by (cases "filter (\<lambda>e. exam_id e = eid) (db_exams db)" rule: list.exhaust;
        cases "tl (filter (\<lambda>e. exam_id e = eid) (db_exams db))" rule: list.exhaust)
       (auto simp: get_exam_details_def split: list.splits)
qed

lemma process_item_error:
  assumes "distinct (map exam_id (db_exams db))"
    and "process_item rt db item st = Inl e"
  shows "e = HTTPException 400"
proof -
  obtain x where "get_exam_details (item_exam_id item) db = Inr x"
    using get_exam_details_total [OF assms(1)] by blast
  with assms(2) show ?thesis
    by (auto simp: process_item_def Let_def dest: parse_mark_error
             split: if_splits sum.splits option.splits)
qed

lemma process_item_rejects:
  "parse_mark rt (item_mark item) = Inl e \<Longrightarrow> \<exists>e'. process_item rt db item st = Inl e'"
  by (simp add: process_item_def Let_def)

lemma process_items_rejects:
  "item \<in> set items \<Longrightarrow> parse_mark rt (item_mark item) = Inl e
     \<Longrightarrow> \<exists>e'. process_items rt db items st = Inl e'"
proof (induction items arbitrary: st)
  case Nil
  then show ?case by simp
next
  case (Cons a items)
  show ?case
  proof (cases "process_item rt db a st")
    case (Inl e')
    then show ?thesis by simp
  next
    case (Inr st')
    with Cons.prems process_item_rejects [of rt item e db st] have "item \<noteq> a" by auto
    with Cons.prems have "item \<in> set items" by simp
    from Cons.IH [OF this Cons.prems(2)] Inr show ?thesis by simp
  qed
qed

lemma process_items_error:
  assumes "distinct (map exam_id (db_exams db))"
  shows "process_items rt db items st = Inl e \<Longrightarrow> e = HTTPException 400"
proof (induction items arbitrary: st)
  case Nil
  then show ?case by simp
next
  case (Cons a items)
  then show ?case
    using process_item_error [OF assms]
    by (cases "process_item rt db a st") auto
qed

lemma process_item_count:
  "process_item rt db item st = Inr st'
     \<Longrightarrow> updated_count st' - int (length (notifications st'))
         = updated_count st - int (length (notifications st))"
  by (auto simp: process_item_def Let_def split: if_splits sum.splits option.splits)

lemma process_items_count:
  "process_items rt db items st = Inr st'
     \<Longrightarrow> updated_count st' - int (length (notifications st'))
         = updated_count st - int (length (notifications st))"
proof (induction items arbitrary: st)
  case Nil
  then show ?case by simp
next
  case (Cons a items)
  then show ?case
    using process_item_count [of rt db a st]
    by (cases "process_item rt db a st") auto
qed

lemma batch_count:
  assumes "batch_update_marks rt db items = Inr (n, ns, db')"
  shows "n = int (length ns)"
proof -
  from assms obtain st where
    st: "process_items rt db items
           \<lparr>bs_marks = db_marks db, bs_added = [], updated_count = 0, notifications = []\<rparr> = Inr st"
    and n: "n = updated_count st" and ns: "ns = notifications st"
    by (auto simp: batch_update_marks_def split: sum.splits)
  from process_items_count [OF st] n ns show ?thesis by simp
qed

text \<open>
  C4. When an accepted item finds a row of its student and exam, and the row holds the
  submitted value, the item leaves the state of the batch as it is: no notification,
  no count, no write. When the row holds another value, the item is counted once, one
  notification with the new value is appended, and the row is updated. The count
  that a batch returns is the number of notifications it enqueues.
\<close>

theorem same_value_neither_counted_nor_notified:
  "(process_item rt db item st = Inr st'
      \<and> parse_mark rt (item_mark item) = Inr m
      \<and> find (is_mark_of (item_student_id item) (item_exam_id item)) (bs_marks st) = Some row
     \<longrightarrow> (if mark_value row = m then st' = st
          else updated_count st' = updated_count st + 1
             \<and> (\<exists>name. notifications st' = notifications st @ [(item_student_id item, name, m)])
             \<and> bs_marks st' = set_first_mark (item_student_id item) (item_exam_id item) m (bs_marks st)
             \<and> bs_added st' = bs_added st))
   \<and> (batch_update_marks rt db items = Inr (n, ns, db') \<longrightarrow> n = int (length ns))"
proof (intro conjI impI)
  assume a: "process_item rt db item st = Inr st'
      \<and> parse_mark rt (item_mark item) = Inr m
      \<and> find (is_mark_of (item_student_id item) (item_exam_id item)) (bs_marks st) = Some row"
  show "if mark_value row = m then st' = st
        else updated_count st' = updated_count st + 1
           \<and> (\<exists>name. notifications st' = notifications st @ [(item_student_id item, name, m)])
           \<and> bs_marks st' = set_first_mark (item_student_id item) (item_exam_id item) m (bs_marks st)
           \<and> bs_added st' = bs_added st"
  proof (cases "mark_value row = m")
    case True
    with a show ?thesis
      by (auto simp: process_item_def Let_def split: if_splits sum.splits)
  next
    case False
    with a show ?thesis
      by (auto simp: process_item_def Let_def split: if_splits sum.splits)
  qed
next
  assume "batch_update_marks rt db items = Inr (n, ns, db')"
  then show "n = int (length ns)" by (rule batch_count)
qed

theorem same_value_neither_counted_nor_notified_witness:
  "process_item example_runtime example_db (example_batch ! 0) (initial_state example_db)
     = Inr (initial_state example_db)
   \<and> parse_mark example_runtime (item_mark (example_batch ! 0)) = Inr (Some 5)
   \<and> map_option mark_value
        (find (is_mark_of (item_student_id (example_batch ! 0)) (item_exam_id (example_batch ! 0)))
           (bs_marks (initial_state example_db))) = Some (Some 5)
   \<and> (\<exists>n ns db'. batch_update_marks example_runtime example_db example_batch = Inr (n, ns, db')
          \<and> n = int (length ns) \<and> n = 2
          \<and> ns = [(2, ''Algebra'', Some 4), (3, ''Algebra'', Some 3)]
          \<and> map mark_value (db_marks db') = [Some 5, Some 4, Some 3])"
proof -
  let ?item = "example_batch ! 0"
  let ?st = "initial_state example_db"
  have "case process_item example_runtime example_db ?item ?st of Inl e \<Rightarrow> False | Inr s \<Rightarrow> True"
    by code_simp
  then obtain st' where step: "process_item example_runtime example_db ?item ?st = Inr st'"
    by (cases "process_item example_runtime example_db ?item ?st") auto
  have parse: "parse_mark example_runtime (item_mark ?item) = Inr (Some 5)"
    by code_simp
  have found: "map_option mark_value
        (find (is_mark_of (item_student_id ?item) (item_exam_id ?item)) (bs_marks ?st)) = Some (Some 5)"
    by code_simp
  then obtain row
    where row: "find (is_mark_of (item_student_id ?item) (item_exam_id ?item)) (bs_marks ?st) = Some row"
      and held: "mark_value row = Some 5"
    by auto
  from same_value_neither_counted_nor_notified
         [where rt = example_runtime and db = example_db and item = ?item and st = ?st
            and st' = st' and m = "Some 5" and row = row]
       step parse row held
  have "st' = ?st" by simp
  with step have unchanged: "process_item example_runtime example_db ?item ?st = Inr ?st"
    by simp
  have "map_sum id (\<lambda>(n, ns, db'). (n, ns, map mark_value (db_marks db')))
        (batch_update_marks example_runtime example_db example_batch)
     = Inr (2, [(2, ''Algebra'', Some 4), (3, ''Algebra'', Some 3)], [Some 5, Some 4, Some 3])"
    by code_simp
  then obtain n ns db' where
    batch: "batch_update_marks example_runtime example_db example_batch = Inr (n, ns, db')"
    and two: "n = 2" and ns: "ns = [(2, ''Algebra'', Some 4), (3, ''Algebra'', Some 3)]"
    and marks: "map mark_value (db_marks db') = [Some 5, Some 4, Some 3]"
    by (cases "batch_update_marks example_runtime example_db example_batch") auto
  from same_value_neither_counted_nor_notified
         [where rt = example_runtime and db = example_db and items = example_batch
            and n = n and ns = ns and db' = db']
       batch
  have count: "n = int (length ns)" by blast
  have counted: "\<exists>n ns db'. batch_update_marks example_runtime example_db example_batch = Inr (n, ns, db')
          \<and> n = int (length ns) \<and> n = 2
          \<and> ns = [(2, ''Algebra'', Some 4), (3, ''Algebra'', Some 3)]
          \<and> map mark_value (db_marks db') = [Some 5, Some 4, Some 3]"
    by (intro exI [of _ n] exI [of _ ns] exI [of _ db'] conjI batch count two ns marks)
  show ?thesis by (rule conjI [OF unchanged conjI [OF parse conjI [OF found counted]]])
qed

lemma set_first_mark_keys:
  "map (\<lambda>r. (mark_student_id r, mark_exam_id r)) (set_first_mark sid eid m rs)
     = map (\<lambda>r. (mark_student_id r, mark_exam_id r)) rs"
  by (induction rs) auto

lemma find_mark_None:
  "find (is_mark_of sid eid) rs = None
     \<longleftrightarrow> (sid, eid) \<notin> set (map (\<lambda>r. (mark_student_id r, mark_exam_id r)) rs)"
  by (auto simp: find_None_iff is_mark_of_def)

lemma process_item_keys:
  "process_item rt db item st = Inr st'
     \<Longrightarrow> map (\<lambda>r. (mark_student_id r, mark_exam_id r)) (bs_marks st')
         = map (\<lambda>r. (mark_student_id r, mark_exam_id r)) (bs_marks st)"
  by (auto simp: process_item_def Let_def set_first_mark_keys
           split: if_splits sum.splits option.splits)

lemma process_item_mono:
  "process_item rt db item st = Inr st'
     \<Longrightarrow> set (bs_added st) \<subseteq> set (bs_added st') \<and> set (notifications st) \<subseteq> set (notifications st')"
  by (auto simp: process_item_def Let_def split: if_splits sum.splits option.splits)

lemma process_items_mono:
  "process_items rt db items st = Inr st'
     \<Longrightarrow> set (bs_added st) \<subseteq> set (bs_added st') \<and> set (notifications st) \<subseteq> set (notifications st')"
proof (induction items arbitrary: st)
  case Nil
  then show ?case by simp
next
  case (Cons a items)
  show ?case
  proof (cases "process_item rt db a st")
    case (Inl e)
    with Cons.prems show ?thesis by simp
  next
    case (Inr st1)
    with Cons.prems have "process_items rt db items st1 = Inr st'" by simp
    from Cons.IH [OF this] process_item_mono [OF Inr] show ?thesis by blast
  qed
qed

lemma process_item_inserts:
  assumes "process_item rt db item st = Inr st'"
    and "parse_mark rt (item_mark item) = Inr m"
    and "find (is_mark_of (item_student_id item) (item_exam_id item)) (bs_marks st) = None"
  shows "bs_added st' = bs_added st @ [(item_student_id item, item_exam_id item, m)]
       \<and> updated_count st' = updated_count st + 1
       \<and> (\<exists>name. notifications st' = notifications st @ [(item_student_id item, name, m)])
       \<and> bs_marks st' = bs_marks st"
  using assms by (auto simp: process_item_def Let_def split: if_splits sum.splits)

lemma process_items_inserts:
  assumes "item \<in> set items"
    and "parse_mark rt (item_mark item) = Inr m"
    and "(item_student_id item, item_exam_id item)
           \<notin> set (map (\<lambda>r. (mark_student_id r, mark_exam_id r)) (bs_marks st))"
    and "process_items rt db items st = Inr st'"
  shows "(item_student_id item, item_exam_id item, m) \<in> set (bs_added st')
       \<and> (\<exists>name. (item_student_id item, name, m) \<in> set (notifications st'))"
  using assms
proof (induction items arbitrary: st)
  case Nil
  then show ?case by simp
next
  case (Cons a items)
  from Cons.prems(4) obtain st1 where
    st1: "process_item rt db a st = Inr st1" and rest: "process_items rt db items st1 = Inr st'"
    by (cases "process_item rt db a st") auto
  show ?case
  proof (cases "item = a")
    case True
    from Cons.prems(3) have "find (is_mark_of (item_student_id item) (item_exam_id item)) (bs_marks st) = None"
      by (simp only: find_mark_None not_False_eq_True)
    from process_item_inserts [OF st1 [folded True] Cons.prems(2) this]
    have "(item_student_id item, item_exam_id item, m) \<in> set (bs_added st1)"
      and "\<exists>name. (item_student_id item, name, m) \<in> set (notifications st1)"
      by auto
    with process_items_mono [OF rest] show ?thesis by blast
  next
    case False
    with Cons.prems(1) have "item \<in> set items" by simp
    moreover from Cons.prems(3) process_item_keys [OF st1]
    have "(item_student_id item, item_exam_id item)
            \<notin> set (map (\<lambda>r. (mark_student_id r, mark_exam_id r)) (bs_marks st1))"
      by simp
    ultimately show ?thesis using Cons.IH Cons.prems(2) rest by blast
  qed
qed

lemma new_mark_rows_contains:
  assumes "(sid, eid, m) \<in> set added"
  shows "\<exists>r \<in> set (new_mark_rows i added).
           mark_student_id r = sid \<and> mark_exam_id r = eid \<and> mark_value r = m"
proof -
  from assms obtain k where "k < length added" and "added ! k = (sid, eid, m)"
    by (auto simp: in_set_conv_nth)
  then have "(k, (sid, eid, m)) \<in> set (enumerate 0 added)"
    by (simp add: in_set_enumerate_eq)
  then have "\<lparr>mark_id = i + int k, mark_value = m, mark_exam_id = eid, mark_student_id = sid\<rparr>
               \<in> set (new_mark_rows i added)"
    unfolding new_mark_rows_def by force
  then show ?thesis by force
qed

lemma batch_inserts:
  assumes ok: "batch_update_marks rt db items = Inr (n, ns, db')"
    and item: "item \<in> set items"
    and parse: "parse_mark rt (item_mark item) = Inr m"
    and fresh: "find (is_mark_of (item_student_id item) (item_exam_id item)) (db_marks db) = None"
  shows "(\<exists>r \<in> set (db_marks db'). mark_student_id r = item_student_id item
            \<and> mark_exam_id r = item_exam_id item \<and> mark_value r = m)
       \<and> (\<exists>name. (item_student_id item, name, m) \<in> set ns)"
proof -
  let ?st0 = "\<lparr>bs_marks = db_marks db, bs_added = [], updated_count = 0, notifications = []\<rparr>"
  from ok obtain st where
    st: "process_items rt db items ?st0 = Inr st"
    and commit: "commit_marks db st = Inr db'" and ns: "ns = notifications st"
    by (auto simp: batch_update_marks_def split: sum.splits)
  from fresh have "(item_student_id item, item_exam_id item)
      \<notin> set (map (\<lambda>r. (mark_student_id r, mark_exam_id r)) (bs_marks ?st0))"
    by (simp add: find_mark_None)
  from process_items_inserts [OF item parse this st]
  have added: "(item_student_id item, item_exam_id item, m) \<in> set (bs_added st)"
    and notified: "\<exists>name. (item_student_id item, name, m) \<in> set (notifications st)"
    by auto
  from commit have "db_marks db'
      = bs_marks st @ new_mark_rows (next_id (map mark_id (bs_marks st))) (bs_added st)"
    by (auto simp: commit_marks_def split: if_splits)
  with new_mark_rows_contains [OF added] notified ns show ?thesis by auto
qed

text \<open>
  C10. When an accepted item finds no row of its student and exam, one object is added
  to the session, the count grows by one and one notification with the submitted value
  is appended, whatever the value; a text that stands for ``not graded'' is accepted as
  the value \<open>None\<close>. When the batch returns, every item for which the table had no
  row has a row with its value in the committed table and a notification in the
  enqueued list.
\<close>

theorem missing_row_is_inserted_counted_and_notified:
  "(process_item rt db item st = Inr st'
      \<and> parse_mark rt (item_mark item) = Inr m
      \<and> find (is_mark_of (item_student_id item) (item_exam_id item)) (bs_marks st) = None
     \<longrightarrow> bs_added st' = bs_added st @ [(item_student_id item, item_exam_id item, m)]
       \<and> updated_count st' = updated_count st + 1
       \<and> (\<exists>name. notifications st' = notifications st @ [(item_student_id item, name, m)]))
   \<and> (raw = None \<or> (\<exists>r. raw = Some r \<and> str_lower rt r \<in> {txt_na, txt_net, ''''})
     \<longrightarrow> parse_mark rt raw = Inr None)
   \<and> (batch_update_marks rt db items = Inr (n, ns, db')
      \<and> item \<in> set items
      \<and> parse_mark rt (item_mark item) = Inr m
      \<and> find (is_mark_of (item_student_id item) (item_exam_id item)) (db_marks db) = None
     \<longrightarrow> (\<exists>r \<in> set (db_marks db'). mark_student_id r = item_student_id item
            \<and> mark_exam_id r = item_exam_id item \<and> mark_value r = m)
       \<and> (\<exists>name. (item_student_id item, name, m) \<in> set ns))"
proof (intro conjI impI)
  assume a: "process_item rt db item st = Inr st'
      \<and> parse_mark rt (item_mark item) = Inr m
      \<and> find (is_mark_of (item_student_id item) (item_exam_id item)) (bs_marks st) = None"
  then have *: "bs_added st' = bs_added st @ [(item_student_id item, item_exam_id item, m)]
       \<and> updated_count st' = updated_count st + 1
       \<and> (\<exists>name. notifications st' = notifications st @ [(item_student_id item, name, m)])
       \<and> bs_marks st' = bs_marks st"
    using process_item_inserts by blast
  from * show "bs_added st' = bs_added st @ [(item_student_id item, item_exam_id item, m)]" by simp
  from * show "updated_count st' = updated_count st + 1" by simp
  from * show "\<exists>name. notifications st' = notifications st @ [(item_student_id item, name, m)]"
    by simp
next
  assume "raw = None \<or> (\<exists>r. raw = Some r \<and> str_lower rt r \<in> {txt_na, txt_net, ''''})"
  then show "parse_mark rt raw = Inr None"
    by (auto simp: parse_mark_def)
next
  assume b: "batch_update_marks rt db items = Inr (n, ns, db')
      \<and> item \<in> set items
      \<and> parse_mark rt (item_mark item) = Inr m
      \<and> find (is_mark_of (item_student_id item) (item_exam_id item)) (db_marks db) = None"
  then have **: "(\<exists>r \<in> set (db_marks db'). mark_student_id r = item_student_id item
            \<and> mark_exam_id r = item_exam_id item \<and> mark_value r = m)
       \<and> (\<exists>name. (item_student_id item, name, m) \<in> set ns)"
    using batch_inserts by blast
  from ** show "\<exists>r \<in> set (db_marks db'). mark_student_id r = item_student_id item
            \<and> mark_exam_id r = item_exam_id item \<and> mark_value r = m" by simp
  from ** show "\<exists>name. (item_student_id item, name, m) \<in> set ns" by simp
qed

theorem missing_row_is_inserted_counted_and_notified_witness:
  "parse_mark example_runtime (item_mark example_new_item) = Inr None
   \<and> find (is_mark_of (item_student_id example_new_item) (item_exam_id example_new_item))
        (bs_marks (initial_state example_db)) = None
   \<and> (\<exists>st'. process_item example_runtime example_db example_new_item (initial_state example_db) = Inr st'
          \<and> bs_added st' = [(4, 11, None)] \<and> updated_count st' = 1
          \<and> notifications st' = [(4, ''Physics'', None)])
   \<and> (\<exists>n ns db'. batch_update_marks example_runtime example_db [example_new_item] = Inr (n, ns, db')
          \<and> n = 1 \<and> ns = [(4, ''Physics'', None)]
          \<and> (\<exists>r \<in> set (db_marks db'). mark_student_id r = 4 \<and> mark_exam_id r = 11 \<and> mark_value r = None)
          \<and> drop 3 (db_marks db')
               = [\<lparr>mark_id = 4, mark_value = None, mark_exam_id = 11, mark_student_id = 4\<rparr>])"
proof -
  let ?item = example_new_item
  let ?st = "initial_state example_db"
  note inst = missing_row_is_inserted_counted_and_notified
      [where rt = example_runtime and db = example_db and item = ?item and m = None]
  have "case process_item example_runtime example_db ?item ?st of Inl e \<Rightarrow> False | Inr s \<Rightarrow> True"
    by code_simp
  then obtain st' where step: "process_item example_runtime example_db ?item ?st = Inr st'"
    by (cases "process_item example_runtime example_db ?item ?st") auto
  have "str_lower example_runtime '''' = ''''"
    by code_simp
  then have "\<exists>r. item_mark ?item = Some r \<and> str_lower example_runtime r \<in> {txt_na, txt_net, ''''}"
    by (simp add: example_new_item_def)
  with inst [where raw = "item_mark ?item"]
  have parse: "parse_mark example_runtime (item_mark ?item) = Inr None"
    by blast
  have fresh: "find (is_mark_of (item_student_id ?item) (item_exam_id ?item)) (bs_marks ?st) = None"
    by code_simp
  have ids: "item_student_id ?item = 4" "item_exam_id ?item = 11"
    and init: "bs_added ?st = []" "updated_count ?st = 0" "notifications ?st = []"
      "bs_marks ?st = db_marks example_db"
    by (simp_all add: example_new_item_def initial_state_def)
  have name: "map_sum id notifications (process_item example_runtime example_db ?item ?st)
      = Inr [(4, ''Physics'', None)]"
    by code_simp
  from inst [where st = ?st and st' = st'] step parse fresh
  have "bs_added st' = bs_added ?st @ [(item_student_id ?item, item_exam_id ?item, None)]
      \<and> updated_count st' = updated_count ?st + 1"
    by blast
  with ids init name step
  have stepped: "\<exists>st'. process_item example_runtime example_db ?item ?st = Inr st'
          \<and> bs_added st' = [(4, 11, None)] \<and> updated_count st' = 1
          \<and> notifications st' = [(4, ''Physics'', None)]"
    by simp
  have "map_sum id (\<lambda>(n, ns, db'). (n, ns, drop 3 (db_marks db')))
        (batch_update_marks example_runtime example_db [?item])
     = Inr (1, [(4, ''Physics'', None)],
            [\<lparr>mark_id = 4, mark_value = None, mark_exam_id = 11, mark_student_id = 4\<rparr>])"
    by code_simp
  then obtain n ns db' where
    batch: "batch_update_marks example_runtime example_db [?item] = Inr (n, ns, db')"
    and one: "n = 1" and ns: "ns = [(4, ''Physics'', None)]"
    and new: "drop 3 (db_marks db')
        = [\<lparr>mark_id = 4, mark_value = None, mark_exam_id = 11, mark_student_id = 4\<rparr>]"
    by (cases "batch_update_marks example_runtime example_db [?item]") auto
  from fresh init have fresh_db:
    "find (is_mark_of (item_student_id ?item) (item_exam_id ?item)) (db_marks example_db) = None"
    by simp
  from inst [where items = "[?item]" and n = n and ns = ns and db' = db'] batch parse fresh_db
  have "\<exists>r \<in> set (db_marks db'). mark_student_id r = item_student_id ?item
            \<and> mark_exam_id r = item_exam_id ?item \<and> mark_value r = None"
    by simp
  with ids have row: "\<exists>r \<in> set (db_marks db').
      mark_student_id r = 4 \<and> mark_exam_id r = 11 \<and> mark_value r = None"
    by simp
  have committed: "\<exists>n ns db'. batch_update_marks example_runtime example_db [?item] = Inr (n, ns, db')
          \<and> n = 1 \<and> ns = [(4, ''Physics'', None)]
          \<and> (\<exists>r \<in> set (db_marks db'). mark_student_id r = 4 \<and> mark_exam_id r = 11 \<and> mark_value r = None)
          \<and> drop 3 (db_marks db')
               = [\<lparr>mark_id = 4, mark_value = None, mark_exam_id = 11, mark_student_id = 4\<rparr>]"
    by (intro exI [of _ n] exI [of _ ns] exI [of _ db'] conjI batch one ns row new)
  show ?thesis by (rule conjI [OF parse conjI [OF fresh conjI [OF stepped committed]]])
qed

lemma import_entry_rejected:
  "parse_import_mark rt (imp_mark entry) = Inl rej
     \<Longrightarrow> is_marks (import_entry rt db entry st) = is_marks st
       \<and> is_added (import_entry rt db entry st) = is_added st
       \<and> imported_count (import_entry rt db entry st) = imported_count st
       \<and> length (import_errors (import_entry rt db entry st)) = length (import_errors st) + 1"
  by (cases rej) (auto simp: import_entry_def Let_def split: list.splits option.splits)

lemma batch_rejects:
  assumes pk: "distinct (map exam_id (db_exams db))"
    and item: "item \<in> set items"
    and bad: "parse_mark rt (item_mark item) = Inl e"
  shows "batch_update_marks rt db items = Inl (HTTPException 400)"
proof -
  let ?st0 = "\<lparr>bs_marks = db_marks db, bs_added = [], updated_count = 0, notifications = []\<rparr>"
  from process_items_rejects [OF item bad]
  obtain e' where e': "process_items rt db items ?st0 = Inl e'" by blast
  with process_items_error [OF pk] have "e' = HTTPException 400" by blast
  with e' show ?thesis by (simp add: batch_update_marks_def)
qed

text \<open>
  C5, as amended. In a batch update a submitted text that does not stand for ``not
  graded'' is accepted exactly when it reads as an integer from 0 to 5; any other text
  raises the exception of status 400, and a batch that holds such an item raises it
  and commits nothing (the key of \<^verbatim>\<open>exam\<close> being unique). In the import from a table a
  text is accepted exactly when it reads as an integer from 2 to 5; an entry with any
  other value is skipped: no row is changed or added for it, it is not counted, and one
  message is appended to the list of errors that the import returns.
\<close>

theorem mark_range_by_operation:
  assumes pk: "distinct (map exam_id (db_exams db))"
  shows "(str_lower rt r \<notin> {txt_na, txt_net, ''''} \<longrightarrow>
            parse_mark rt (Some r) =
              (case int_of_str rt r of
                 None \<Rightarrow> Inl (HTTPException 400)
               | Some v \<Rightarrow> if 0 \<le> v \<and> v \<le> 5 then Inr (Some v) else Inl (HTTPException 400)))
       \<and> (item \<in> set items \<and> parse_mark rt (item_mark item) = Inl e
            \<longrightarrow> batch_update_marks rt db items = Inl (HTTPException 400))
       \<and> (str_lower rt (str_strip rt s) \<notin> {txt_na, ''na''} \<longrightarrow>
            parse_import_mark rt (Some s) =
              (case int_of_str rt (str_lower rt (str_strip rt s)) of
                 None \<Rightarrow> Inl NotANumber
               | Some v \<Rightarrow> if 2 \<le> v \<and> v \<le> 5 then Inr (Some v) else Inl OutOfRange))
       \<and> (parse_import_mark rt (imp_mark entry) = Inl rej \<longrightarrow>
            is_marks (import_entry rt db entry st) = is_marks st
          \<and> is_added (import_entry rt db entry st) = is_added st
          \<and> imported_count (import_entry rt db entry st) = imported_count st
          \<and> length (import_errors (import_entry rt db entry st)) = length (import_errors st) + 1)"
proof (intro conjI impI)
  assume "str_lower rt r \<notin> {txt_na, txt_net, ''''}"
  then show "parse_mark rt (Some r) =
      (case int_of_str rt r of
         None \<Rightarrow> Inl (HTTPException 400)
       | Some v \<Rightarrow> if 0 \<le> v \<and> v \<le> 5 then Inr (Some v) else Inl (HTTPException 400))"
    by (auto simp: parse_mark_def split: option.splits)
next
  assume "item \<in> set items \<and> parse_mark rt (item_mark item) = Inl e"
  then show "batch_update_marks rt db items = Inl (HTTPException 400)"
    using batch_rejects [OF pk] by blast
next
  assume na: "str_lower rt (str_strip rt s) \<notin> {txt_na, ''na''}"
  have range: "v \<in> set [2, 3, 4, 5] \<longleftrightarrow> 2 \<le> v \<and> v \<le> 5" for v :: int
    by auto
  from na show "parse_import_mark rt (Some s) =
      (case int_of_str rt (str_lower rt (str_strip rt s)) of
         None \<Rightarrow> Inl NotANumber
       | Some v \<Rightarrow> if 2 \<le> v \<and> v \<le> 5 then Inr (Some v) else Inl OutOfRange)"
    unfolding parse_import_mark_def Let_def range
    by (auto split: option.splits)
next
  assume rej: "parse_import_mark rt (imp_mark entry) = Inl rej"
  note r = import_entry_rejected [OF rej, of db st]
  from r show "is_marks (import_entry rt db entry st) = is_marks st" by simp
  from r show "is_added (import_entry rt db entry st) = is_added st" by simp
  from r show "imported_count (import_entry rt db entry st) = imported_count st" by simp
  from r show "length (import_errors (import_entry rt db entry st)) = length (import_errors st) + 1"
    by simp
qed

theorem mark_range_by_operation_witness:
  "distinct (map exam_id (db_exams example_db))
   \<and> parse_mark example_runtime (Some ''1'') = Inr (Some 1)
   \<and> parse_mark example_runtime (item_mark example_item_seven) = Inl (HTTPException 400)
   \<and> batch_update_marks example_runtime example_db (example_batch @ [example_item_seven])
       = Inl (HTTPException 400)
   \<and> parse_import_mark example_runtime (Some ''1'') = Inl OutOfRange
   \<and> parse_import_mark example_runtime (Some ''4'') = Inr (Some 4)
   \<and> parse_import_mark example_runtime (imp_mark example_entry_seven) = Inl OutOfRange
   \<and> is_marks (import_entry example_runtime example_db example_entry_seven
                  (initial_import_state example_db)) = db_marks example_db
   \<and> is_added (import_entry example_runtime example_db example_entry_seven
                  (initial_import_state example_db)) = []
   \<and> imported_count (import_entry example_runtime example_db example_entry_seven
                        (initial_import_state example_db)) = 0
   \<and> import_marks_from_table example_runtime example_db [example_entry_seven]
       = Inr (0, [MarkOutOfRange (Some ''7'') ''Ivanov Ivan''], example_db)"
proof -
  let ?st = "initial_import_state example_db"
  have pk: "distinct (map exam_id (db_exams example_db))"
    by (simp add: example_db_def)
  note inst = mark_range_by_operation [OF pk, where rt = example_runtime]
  have lower1: "str_lower example_runtime ''1'' \<notin> {txt_na, txt_net, ''''}"
    and int1: "int_of_str example_runtime ''1'' = Some 1"
    and lower1': "str_lower example_runtime (str_strip example_runtime ''1'') \<notin> {txt_na, ''na''}"
    and int1': "int_of_str example_runtime (str_lower example_runtime (str_strip example_runtime ''1'')) = Some 1"
    by code_simp+
  from inst [where r = "''1''"] lower1 int1
  have one: "parse_mark example_runtime (Some ''1'') = Inr (Some 1)" by simp
  from inst [where s = "''1''"] lower1' int1'
  have imp1: "parse_import_mark example_runtime (Some ''1'') = Inl OutOfRange" by simp
  have seven: "parse_mark example_runtime (item_mark example_item_seven) = Inl (HTTPException 400)"
    by code_simp
  have "example_item_seven \<in> set (example_batch @ [example_item_seven])" by simp
  with inst [where item = example_item_seven and items = "example_batch @ [example_item_seven]"] seven
  have batch: "batch_update_marks example_runtime example_db (example_batch @ [example_item_seven])
       = Inl (HTTPException 400)"
    by blast
  have imp4: "parse_import_mark example_runtime (Some ''4'') = Inr (Some 4)"
    by code_simp
  have rejected: "parse_import_mark example_runtime (imp_mark example_entry_seven) = Inl OutOfRange"
    by code_simp
  have init: "is_marks ?st = db_marks example_db" "is_added ?st = []" "imported_count ?st = 0"
    by (simp_all add: initial_import_state_def)
  from inst [where entry = example_entry_seven and rej = OutOfRange and st = ?st] rejected init
  have kept: "is_marks (import_entry example_runtime example_db example_entry_seven ?st)
        = db_marks example_db"
    and added: "is_added (import_entry example_runtime example_db example_entry_seven ?st) = []"
    and count: "imported_count (import_entry example_runtime example_db example_entry_seven ?st) = 0"
    by simp_all
  have imp7: "import_marks_from_table example_runtime example_db [example_entry_seven]
       = Inr (0, [MarkOutOfRange (Some ''7'') ''Ivanov Ivan''], example_db)"
    by code_simp
  show ?thesis
    by (intro conjI pk one seven batch imp1 imp4 rejected kept added count imp7)
qed

text \<open>
  The claim as stated fails in the batch update: the marks 0 and 1 lie outside the range
  2 to 5 and are accepted and written. And the import does not raise for a mark out of
  range: it returns, with the entry among its errors.
\<close>

theorem mark_zero_accepted_counterexample:
  "parse_mark example_runtime (item_mark example_item_zero) = Inr (Some 0)
   \<and> map_sum id (\<lambda>(n, ns, db'). (n, ns, map mark_value (db_marks db')))
        (batch_update_marks example_runtime example_db [example_item_zero])
     = Inr (1, [(1, ''Algebra'', Some 0)], [Some 0, Some 3, None])
   \<and> import_marks_from_table example_runtime example_db [example_entry_seven]
       = Inr (0, [MarkOutOfRange (Some ''7'') ''Ivanov Ivan''], example_db)"
  by code_simp

subsection \<open>Reminder scheduler\<close>

lemma scan_exams_append:
  "scan_exams rt send today db (xs @ ys) w =
     (let (evs, w1) = scan_exams rt send today db xs w;
          (evs', w2) = scan_exams rt send today db ys w1
      in (evs @ evs', w2))"
  by (induction xs arbitrary: w) (auto split: prod.splits)







text \<open>
  C9. An exam whose date does not parse leaves one error line with its identifier and
  nothing else, in particular no exception: the exams before it and after it are
  scanned as if it were not in the list, on the same states of the transport.
\<close>

theorem unparsable_date_is_logged_and_skipped:
  assumes "strptime rt (exam_holding_date exam) = None"
  shows "remind_exam rt send today db exam w = ([Logged (ReminderDateError (exam_id exam))], w)
       \<and> scan_exams rt send today db (before @ exam # after) w =
           (let (evs, w1) = scan_exams rt send today db before w;
                (evs', w2) = scan_exams rt send today db after w1
            in (evs @ Logged (ReminderDateError (exam_id exam)) # evs', w2))
       \<and> (exam \<in> set (upcoming_exams rt today db) \<longrightarrow>
            (\<exists>before after. upcoming_exams rt today db = before @ exam # after
               \<and> send_exam_reminders rt send today db w =
                   (let (evs, w1) = scan_exams rt send today db before w;
                        (evs', w2) = scan_exams rt send today db after w1
                    in (evs @ Logged (ReminderDateError (exam_id exam)) # evs', w2))))"
proof -
  have one: "remind_exam rt send today db exam w = ([Logged (ReminderDateError (exam_id exam))], w)"
    for w
    using assms by (simp add: remind_exam_def)
  have two: "scan_exams rt send today db (before @ exam # after) w =
      (let (evs, w1) = scan_exams rt send today db before w;
           (evs', w2) = scan_exams rt send today db after w1
       in (evs @ Logged (ReminderDateError (exam_id exam)) # evs', w2))"
    for before after
    by (simp add: scan_exams_append one split: prod.splits)
  have three: "\<exists>before after. upcoming_exams rt today db = before @ exam # after
      \<and> send_exam_reminders rt send today db w =
          (let (evs, w1) = scan_exams rt send today db before w;
               (evs', w2) = scan_exams rt send today db after w1
           in (evs @ Logged (ReminderDateError (exam_id exam)) # evs', w2))"
    if "exam \<in> set (upcoming_exams rt today db)"
  proof -
    from that obtain before after where "upcoming_exams rt today db = before @ exam # after"
      by (auto dest: split_list)
    with two [of before after] show ?thesis
      by (auto simp: send_exam_reminders_def)
  qed
  from one [of w] two [of before after] three show ?thesis by blast
qed

theorem unparsable_date_is_logged_and_skipped_witness:
  "strptime example_runtime (exam_holding_date (db_exams example_db ! 3)) = None
   \<and> db_exams example_db ! 3 \<in> set (upcoming_exams example_runtime example_today example_db)
   \<and> remind_exam example_runtime all_delivered example_today example_db (db_exams example_db ! 3) ()
       = ([Logged (ReminderDateError 13)], ())
   \<and> scan_exams example_runtime all_delivered example_today example_db
        ([] @ db_exams example_db ! 3 # [db_exams example_db ! 0]) ()
       = ([Logged (ReminderDateError 13),
           Sent 1001 (reminder_text example_runtime (db_exams example_db ! 0) (db_curators example_db ! 0) 3)],
          ())
   \<and> (\<exists>before after.
          upcoming_exams example_runtime example_today example_db = before @ db_exams example_db ! 3 # after
          \<and> send_exam_reminders example_runtime all_delivered example_today example_db () =
              (let (evs, w1) = scan_exams example_runtime all_delivered example_today example_db before ();
                   (evs', w2) = scan_exams example_runtime all_delivered example_today example_db after w1
               in (evs @ Logged (ReminderDateError 13) # evs', w2)))"
proof -
  let ?bad = "db_exams example_db ! 3"
  let ?good = "db_exams example_db ! 0"
  have none: "strptime example_runtime (exam_holding_date ?bad) = None"
    by code_simp
  have fetched: "?bad \<in> set (upcoming_exams example_runtime example_today example_db)"
    by code_simp
  have id13: "exam_id ?bad = 13"
    by code_simp
  have rest: "scan_exams example_runtime all_delivered example_today example_db [?good] ()
      = ([Sent 1001 (reminder_text example_runtime ?good (db_curators example_db ! 0) 3)], ())"
    by code_simp
  note inst = unparsable_date_is_logged_and_skipped
      [OF none, of all_delivered example_today example_db "()" "[]" "[?good]"]
  from inst id13
  have skipped: "remind_exam example_runtime all_delivered example_today example_db ?bad ()
      = ([Logged (ReminderDateError 13)], ())"
    by simp
  from inst id13 rest
  have continued: "scan_exams example_runtime all_delivered example_today example_db
        ([] @ ?bad # [?good]) ()
      = ([Logged (ReminderDateError 13),
          Sent 1001 (reminder_text example_runtime ?good (db_curators example_db ! 0) 3)], ())"
    by simp
  from inst fetched id13
  have whole: "\<exists>before after.
          upcoming_exams example_runtime example_today example_db = before @ ?bad # after
          \<and> send_exam_reminders example_runtime all_delivered example_today example_db () =
              (let (evs, w1) = scan_exams example_runtime all_delivered example_today example_db before ();
                   (evs', w2) = scan_exams example_runtime all_delivered example_today example_db after w1
               in (evs @ Logged (ReminderDateError 13) # evs', w2))"
    by simp
  show ?thesis by (intro conjI none fetched skipped continued whole)
qed

subsection \<open>Notifier\<close>

text \<open>
  What holds on both paths. The notifier of marks is a total function: it returns for
  every list and every transport, with exactly one event per notification, in the order
  of the list; the event is the delivered message of that notification or one log line
  naming its student. The loop of the reminders does the same for every recipient as
  long as no send fails with an exception other than \<^verbatim>\<open>TelegramBadRequest\<close>.
\<close>

lemma notify_student_mark_one_event:
  "\<exists>ev. fst (notify_student_mark rt send db sid exam_name mark w) = [ev]
        \<and> ((\<exists>tg. ev = Sent tg (mark_message rt exam_name mark))
           \<or> ev \<in> Logged ` {MarkNoTelegramWarning sid, MarkSendWarning sid, MarkUnknownError sid})"
proof (cases "find (\<lambda>s. student_id s = sid) (db_students db)")
  case None
  then show ?thesis by (simp add: notify_student_mark_def)
next
  case (Some student)
  show ?thesis
  proof (cases "find (\<lambda>t. Some (tg_id t) = student_telegram_id student) (db_telegrams db)")
    case None
    with Some show ?thesis by (simp add: notify_student_mark_def)
  next
    case telegram: (Some telegram)
    obtain r w' where s: "send w (tg_telegram_id telegram) (mark_message rt exam_name mark) = (r, w')"
      by (cases "send w (tg_telegram_id telegram) (mark_message rt exam_name mark)")
    with Some telegram show ?thesis
      by (cases r) (auto simp: notify_student_mark_def Let_def)
  qed
qed

lemma mark_notifier_one_event_each:
  "list_all2
     (\<lambda>n ev. case n of (sid, exam_name, mark) \<Rightarrow>
        (\<exists>tg. ev = Sent tg (mark_message rt exam_name mark))
        \<or> ev \<in> Logged ` {MarkNoTelegramWarning sid, MarkSendWarning sid, MarkUnknownError sid})
     ns (fst (send_notifications_with_delay rt send db ns w))"
proof (induction ns arbitrary: w)
  case Nil
  then show ?case by simp
next
  case (Cons n ns)
  obtain sid exam_name mark where n: "n = (sid, exam_name, mark)" by (cases n)
  obtain evs w1 where first: "notify_student_mark rt send db sid exam_name mark w = (evs, w1)"
    by (cases "notify_student_mark rt send db sid exam_name mark w")
  obtain evs' w2 where rest: "send_notifications_with_delay rt send db ns w1 = (evs', w2)"
    by (cases "send_notifications_with_delay rt send db ns w1")
  from notify_student_mark_one_event [of rt send db sid exam_name mark w] first
  obtain ev where ev: "evs = [ev]"
    and kind: "(\<exists>tg. ev = Sent tg (mark_message rt exam_name mark))
           \<or> ev \<in> Logged ` {MarkNoTelegramWarning sid, MarkSendWarning sid, MarkUnknownError sid}"
    by auto
  from Cons [of w1] rest n first ev kind show ?case by simp
qed

lemma mark_notifier_length:
  "length (fst (send_notifications_with_delay rt send db ns w)) = length ns"
  using mark_notifier_one_event_each [of rt ns send db w]
  by (simp add: list_all2_lengthD)

lemma reminders_one_event_each:
  assumes "\<forall>w tg. fst (send w tg text) \<noteq> OtherFailure"
  shows "list_all2 (\<lambda>tg ev. ev = Sent tg text \<or> ev = Logged (ReminderSendWarning tg))
           ids (fst (deliver_reminders send text ids w))"
proof (induction ids arbitrary: w)
  case Nil
  then show ?case by simp
next
  case (Cons tg ids)
  obtain r w' where s: "send w tg text = (r, w')" by (cases "send w tg text")
  with assms have "r \<noteq> OtherFailure" by (metis fst_conv)
  with s Cons [of w'] show ?case
    by (cases r) (auto split: prod.splits)
qed

text \<open>
  C3 at its failing input. The exam 11 has the recipients 1002 and 1003. On a transport
  where the send to 1002 raises an exception other than \<^verbatim>\<open>TelegramBadRequest\<close>, the
  reminder loop writes one error line and never tries 1003. On the same transport the
  notifier of marks logs the failure of the first student and delivers to the second.
\<close>

theorem reminder_failure_aborts_remaining_recipients:
  "get_telegram_ids_by_exam_id 11 example_db = Inr [1002, 1003]
   \<and> deliver_reminders chat_1002_fails ''reminder'' [1002, 1003] () = ([Logged ReminderUnknownError], ())
   \<and> remind_exam example_runtime chat_1002_fails example_today example_db (db_exams example_db ! 1) ()
       = ([Logged ReminderUnknownError], ())
   \<and> fst (send_notifications_with_delay example_runtime chat_1002_fails example_db
             [(3, ''Physics'', Some 5), (4, ''Physics'', Some 4)] ())
       = [Logged (MarkUnknownError 3), Sent 1003 (mark_message example_runtime ''Physics'' (Some 4))]"
  by code_simp

subsection \<open>Registration through the bot\<close>

lemma telegram_for_contains:
  "chat \<in> set (map tg_telegram_id (snd (telegram_for db chat)))"
proof (cases "find (\<lambda>t. tg_telegram_id t = chat) (db_telegrams db)")
  case None
  then show ?thesis by (simp add: telegram_for_def Let_def)
next
  case (Some t)
  then have "t \<in> set (db_telegrams db)" and "tg_telegram_id t = chat"
    by (auto simp: find_Some_iff)
  with Some show ?thesis by (force simp: telegram_for_def)
qed

lemma set_student_binds_chat:
  "set_student_password_and_telegram rt db sid password chat = Inr (s, db')
     \<Longrightarrow> chat \<in> set (map tg_telegram_id (db_telegrams db'))"
  using telegram_for_contains [of chat db]
  by (auto simp: set_student_password_and_telegram_def Let_def split: option.splits prod.splits)

lemma set_curator_binds_chat:
  "set_curator_password_and_telegram rt db cid password chat = Inr (c, db')
     \<Longrightarrow> chat \<in> set (map tg_telegram_id (db_telegrams db'))"
  using telegram_for_contains [of chat db]
  by (auto simp: set_curator_password_and_telegram_def Let_def split: option.splits prod.splits)

lemma map_sum_id_Inr:
  "map_sum id f x = Inr y \<Longrightarrow> \<exists>z. x = Inr z \<and> f z = y"
  by (cases x) auto

lemma registration_binds_chat:
  assumes "pwd_handler rt db msg st = ([Answer (RegistrationOk login password)], st', db')"
  shows "msg_from_user_id msg \<in> set (map tg_telegram_id (db_telegrams db'))"
proof (cases "data_role st = Some ''student''")
  case True
  with assms have "map_sum id (\<lambda>(s, db'). (student_login s, db'))
      (set_student_password_and_telegram rt db (data_user_id st) (str_strip rt (msg_text msg))
         (msg_from_user_id msg)) = Inr (login, db')"
    by (auto simp: pwd_handler_def Let_def split: if_splits sum.splits)
  from map_sum_id_Inr [OF this] obtain s where
    "set_student_password_and_telegram rt db (data_user_id st) (str_strip rt (msg_text msg))
       (msg_from_user_id msg) = Inr (s, db')"
    by auto
  then show ?thesis by (rule set_student_binds_chat)
next
  case False
  with assms have "map_sum id (\<lambda>(c, db'). (Some (curator_login c), db'))
      (set_curator_password_and_telegram rt db (data_user_id st) (str_strip rt (msg_text msg))
         (msg_from_user_id msg)) = Inr (login, db')"
    by (auto simp: pwd_handler_def Let_def split: if_splits sum.splits)
  from map_sum_id_Inr [OF this] obtain c where
    "set_curator_password_and_telegram rt db (data_user_id st) (str_strip rt (msg_text msg))
       (msg_from_user_id msg) = Inr (c, db')"
    by auto
  then show ?thesis by (rule set_curator_binds_chat)
qed

text \<open>
  What holds for \<^verbatim>\<open>/start\<close>. The state \<open>RS_choosing_role\<close> is set by
  \<^verbatim>\<open>send_welcome_photo\<close> only. When the chat identifier of the sender of the message it
  is handed is in the table \<^verbatim>\<open>telegram\<close>, as it is whenever a student is bound to it,
  the function answers ``already registered'' and leaves the conversation without a
  state. For \<^verbatim>\<open>/start\<close> that sender is the caller. A completed registration stores
  the chat of the one who registered, so a \<^verbatim>\<open>/start\<close> of the same sender after it is
  answered in this way.
\<close>

theorem start_command_short_circuits:
  "(msg_from_user_id msg \<in> set (map tg_telegram_id (db_telegrams db))
      \<longrightarrow> send_welcome_photo db msg st = ([Answer AlreadyRegistered], cleared)
        \<and> start_command db msg st = ([Answer AlreadyRegistered], cleared))
   \<and> ((\<exists>s \<in> set (db_students db). \<exists>t \<in> set (db_telegrams db).
          student_telegram_id s = Some (tg_id t) \<and> tg_telegram_id t = msg_from_user_id msg)
      \<longrightarrow> start_command db msg st = ([Answer AlreadyRegistered], cleared))
   \<and> (pwd_handler rt db reg st0 = ([Answer (RegistrationOk login password)], st1, db1)
        \<and> msg_from_user_id msg = msg_from_user_id reg
      \<longrightarrow> start_command db1 msg st2 = ([Answer AlreadyRegistered], cleared))
   \<and> fsm_state cleared = None
   \<and> fsm_state cleared \<noteq> Some RS_choosing_role"
proof (intro conjI impI)
  assume known: "msg_from_user_id msg \<in> set (map tg_telegram_id (db_telegrams db))"
  then show "send_welcome_photo db msg st = ([Answer AlreadyRegistered], cleared)"
    by (simp add: send_welcome_photo_def)
  from known show "start_command db msg st = ([Answer AlreadyRegistered], cleared)"
    by (simp add: start_command_def send_welcome_photo_def)
next
  assume "\<exists>s \<in> set (db_students db). \<exists>t \<in> set (db_telegrams db).
          student_telegram_id s = Some (tg_id t) \<and> tg_telegram_id t = msg_from_user_id msg"
  then have "msg_from_user_id msg \<in> set (map tg_telegram_id (db_telegrams db))"
    by force
  then show "start_command db msg st = ([Answer AlreadyRegistered], cleared)"
    by (simp add: start_command_def send_welcome_photo_def)
next
  assume a: "pwd_handler rt db reg st0 = ([Answer (RegistrationOk login password)], st1, db1)
        \<and> msg_from_user_id msg = msg_from_user_id reg"
  then have "msg_from_user_id msg \<in> set (map tg_telegram_id (db_telegrams db1))"
    using registration_binds_chat [of rt db reg st0 login password st1 db1] by simp
  then show "start_command db1 msg st2 = ([Answer AlreadyRegistered], cleared)"
    by (simp add: start_command_def send_welcome_photo_def)
next
  show "fsm_state cleared = None" by (simp add: cleared_def)
  show "fsm_state cleared \<noteq> Some RS_choosing_role" by (simp add: cleared_def)
qed

theorem start_command_short_circuits_example:
  "start_command example_db example_start example_pwd_context
     = ([AnswerWelcomePhoto ''Olga''], cleared\<lparr>fsm_state := Some RS_choosing_role\<rparr>)
   \<and> (\<exists>db1. pwd_handler example_runtime example_db example_password example_pwd_context
               = ([Answer (RegistrationOk (Some ''orlovaOP'') ''secret'')], cleared, db1)
          \<and> map tg_telegram_id (db_telegrams db1) = [1001, 1002, 1003, 2002]
          \<and> start_command db1 example_start cleared = ([Answer AlreadyRegistered], cleared))
   \<and> (\<exists>s \<in> set (db_students example_db). \<exists>t \<in> set (db_telegrams example_db).
          student_telegram_id s = Some (tg_id t) \<and> tg_telegram_id t = 1001)
   \<and> start_command example_db example_start_registered example_fio_context
       = ([Answer AlreadyRegistered], cleared)"
proof -
  have fresh: "start_command example_db example_start example_pwd_context
     = ([AnswerWelcomePhoto ''Olga''], cleared\<lparr>fsm_state := Some RS_choosing_role\<rparr>)"
    by code_simp
  have "fst (pwd_handler example_runtime example_db example_password example_pwd_context)
          = [Answer (RegistrationOk (Some ''orlovaOP'') ''secret'')]
      \<and> fst (snd (pwd_handler example_runtime example_db example_password example_pwd_context)) = cleared
      \<and> map tg_telegram_id (db_telegrams
            (snd (snd (pwd_handler example_runtime example_db example_password example_pwd_context))))
          = [1001, 1002, 1003, 2002]"
    by code_simp
  then obtain db1 where
    reg: "pwd_handler example_runtime example_db example_password example_pwd_context
            = ([Answer (RegistrationOk (Some ''orlovaOP'') ''secret'')], cleared, db1)"
    and chats: "map tg_telegram_id (db_telegrams db1) = [1001, 1002, 1003, 2002]"
    by (cases "pwd_handler example_runtime example_db example_password example_pwd_context") auto
  have same: "msg_from_user_id example_start = msg_from_user_id example_password"
    by (simp add: example_start_def example_password_def)
  from start_command_short_circuits
         [where msg = example_start and rt = example_runtime and db = example_db
            and reg = example_password and ?st0.0 = example_pwd_context
            and login = "Some ''orlovaOP''" and password = "''secret''"
            and ?st1.0 = cleared and ?db1.0 = db1 and ?st2.0 = cleared]
       reg same
  have again: "start_command db1 example_start cleared = ([Answer AlreadyRegistered], cleared)"
    by blast
  have registered: "\<exists>db1. pwd_handler example_runtime example_db example_password example_pwd_context
               = ([Answer (RegistrationOk (Some ''orlovaOP'') ''secret'')], cleared, db1)
          \<and> map tg_telegram_id (db_telegrams db1) = [1001, 1002, 1003, 2002]
          \<and> start_command db1 example_start cleared = ([Answer AlreadyRegistered], cleared)"
    by (intro exI [of _ db1] conjI reg chats again)
  have bound: "\<exists>s \<in> set (db_students example_db). \<exists>t \<in> set (db_telegrams example_db).
          student_telegram_id s = Some (tg_id t) \<and> tg_telegram_id t = 1001"
    by (simp add: example_db_def)
  have sender: "msg_from_user_id example_start_registered = 1001"
    by (simp add: example_start_registered_def)
  from start_command_short_circuits
         [where msg = example_start_registered and db = example_db and st = example_fio_context]
       bound sender
  have known: "start_command example_db example_start_registered example_fio_context
       = ([Answer AlreadyRegistered], cleared)"
    by simp
  show ?thesis by (intro conjI fresh registered bound known)
qed

text \<open>
  The start through the button \<^verbatim>\<open>menu\<close> does not look at the user who pressed it:
  whenever the sender of the message that carries the button is not in the table
  \<^verbatim>\<open>telegram\<close>, the conversation enters \<open>RS_choosing_role\<close>.
\<close>

lemma menu_handler_ignores_caller:
  "menu_handler db (callback\<lparr>cb_from_user_id := caller\<rparr>) st = menu_handler db callback st"
  "msg_from_user_id (cb_message callback) \<notin> set (map tg_telegram_id (db_telegrams db))
     \<Longrightarrow> menu_handler db callback st =
           ([AnswerWelcomePhoto (msg_from_first_name (cb_message callback))],
            cleared\<lparr>fsm_state := Some RS_choosing_role\<rparr>)"
  by (simp_all add: menu_handler_def send_welcome_photo_def)

text \<open>
  C8 at its failing input. The user 1001 is bound to the first student, and a
  \<^verbatim>\<open>/start\<close> of this user is answered ``already registered'' without a state. The same
  user presses the button \<^verbatim>\<open>menu\<close> under an answer of the bot: the guard tests the
  bot's identifier 999, the welcome photo is sent, greeting the bot by its name, and
  the conversation enters \<open>RS_choosing_role\<close>.
\<close>

theorem menu_start_ignores_registered_caller:
  "cb_from_user_id example_menu \<in> set (map tg_telegram_id (db_telegrams example_db))
   \<and> msg_from_user_id example_start_registered = cb_from_user_id example_menu
   \<and> start_command example_db example_start_registered example_fio_context
       = ([Answer AlreadyRegistered], cleared)
   \<and> menu_handler example_db example_menu example_fio_context
       = ([AnswerWelcomePhoto ''Navigator''], cleared\<lparr>fsm_state := Some RS_choosing_role\<rparr>)
   \<and> fsm_state (snd (menu_handler example_db example_menu example_fio_context))
       = Some RS_choosing_role"
  by code_simp

lemma get_student_by_fio_none:
  "\<forall>s \<in> set (db_students db).
      \<not> (ilike rt (student_first_name s) first_name \<and> ilike rt (student_last_name s) last_name
         \<and> ilike rt (student_patronymic s) patronymic)
     \<Longrightarrow> get_student_by_fio rt db first_name last_name patronymic = Inl (HTTPException 404)"
  by (simp add: get_student_by_fio_def find_None_iff [THEN iffD2])

lemma get_curator_by_fio_none:
  "\<forall>c \<in> set (db_curators db).
      \<not> (ilike rt (curator_first_name c) first_name \<and> ilike rt (curator_last_name c) last_name
         \<and> ilike rt (curator_patronymic c) patronymic)
     \<Longrightarrow> get_curator_by_fio rt db first_name last_name patronymic = Inl (HTTPException 404)"
  by (simp add: get_curator_by_fio_def find_None_iff [THEN iffD2])

text \<open>
  C6, as amended. In the state \<open>RS_fio\<close>, when the stripped text splits into exactly
  three tokens (surname, first name, patronymic) and no principal of the chosen role
  matches them, the handler deletes the stored prompt if there is one, answers that
  nobody was found, and returns. The conversation stays in the state it was in, with
  the data it had; only the entered name is stored under \<^verbatim>\<open>fio\<close>. So the next message
  of the chat is handled as a name again.
\<close>

theorem unmatched_name_fails_and_keeps_state:
  assumes tokens: "str_split rt (str_strip rt (msg_text msg)) = [last_name, first_name, patronymic]"
    and unmatched:
      "if data_role st = Some ''student''
       then \<forall>s \<in> set (db_students db).
              \<not> (ilike rt (student_first_name s) first_name \<and> ilike rt (student_last_name s) last_name
                 \<and> ilike rt (student_patronymic s) patronymic)
       else \<forall>c \<in> set (db_curators db).
              \<not> (ilike rt (curator_first_name c) first_name \<and> ilike rt (curator_last_name c) last_name
                 \<and> ilike rt (curator_patronymic c) patronymic)"
  shows "\<exists>deleted. fio_handler rt db msg st =
            (deleted @ [Answer NotFoundReply],
             st\<lparr>data_fio := Some (str_lower rt (str_strip rt (msg_text msg)))\<rparr>)
          \<and> set deleted \<subseteq> range (DeleteMessage (msg_chat_id msg))
          \<and> fsm_state (snd (fio_handler rt db msg st)) = fsm_state st
          \<and> data_role (snd (fio_handler rt db msg st)) = data_role st
          \<and> data_user_id (snd (fio_handler rt db msg st)) = data_user_id st"
proof -
  let ?deleted = "case data_fio_prompt_msg_id st of
                    None \<Rightarrow> []
                  | Some prompt_msg_id \<Rightarrow>
                      if prompt_msg_id = 0 then []
                      else [DeleteMessage (msg_chat_id msg) prompt_msg_id]"
  have valid: "validate_fio rt (str_strip rt (msg_text msg))"
    using tokens by (simp add: validate_fio_def)
  have result: "fio_handler rt db msg st =
      (?deleted @ [Answer NotFoundReply],
       st\<lparr>data_fio := Some (str_lower rt (str_strip rt (msg_text msg)))\<rparr>)"
  proof (cases "data_role st = Some ''student''")
    case True
    with unmatched get_student_by_fio_none [of db rt first_name last_name patronymic]
    have "get_student_by_fio rt db first_name last_name patronymic = Inl (HTTPException 404)"
      by simp
    with True valid tokens show ?thesis
      by (simp add: fio_handler_def Let_def)
  next
    case False
    with unmatched get_curator_by_fio_none [of db rt first_name last_name patronymic]
    have "get_curator_by_fio rt db first_name last_name patronymic = Inl (HTTPException 404)"
      by simp
    with False valid tokens show ?thesis
      by (simp add: fio_handler_def Let_def)
  qed
  have "set ?deleted \<subseteq> range (DeleteMessage (msg_chat_id msg))"
    by (auto split: option.splits)
  with result show ?thesis by auto
qed

theorem unmatched_name_fails_and_keeps_state_witness:
  "str_split example_runtime (str_strip example_runtime (msg_text example_unknown_name))
     = [''Sidorov'', ''Sidor'', ''Sidorovich'']
   \<and> data_role example_fio_context = Some ''student''
   \<and> get_student_by_fio example_runtime example_db ''Sidor'' ''Sidorov'' ''Sidorovich''
       = Inl (HTTPException 404)
   \<and> fio_handler example_runtime example_db example_unknown_name example_fio_context
       = ([DeleteMessage 2002 77, Answer NotFoundReply],
          example_fio_context\<lparr>data_fio := Some ''sidorov sidor sidorovich''\<rparr>)"
proof -
  have tokens: "str_split example_runtime (str_strip example_runtime (msg_text example_unknown_name))
     = [''Sidorov'', ''Sidor'', ''Sidorovich'']"
    by code_simp
  have role: "data_role example_fio_context = Some ''student''"
    by (simp add: example_fio_context_def)
  have none: "list_all (\<lambda>s. \<not> (ilike example_runtime (student_first_name s) ''Sidor''
                 \<and> ilike example_runtime (student_last_name s) ''Sidorov''
                 \<and> ilike example_runtime (student_patronymic s) ''Sidorovich''))
               (db_students example_db)"
    by code_simp
  then have unmatched:
      "if data_role example_fio_context = Some ''student''
       then \<forall>s \<in> set (db_students example_db).
              \<not> (ilike example_runtime (student_first_name s) ''Sidor''
                 \<and> ilike example_runtime (student_last_name s) ''Sidorov''
                 \<and> ilike example_runtime (student_patronymic s) ''Sidorovich'')
       else \<forall>c \<in> set (db_curators example_db).
              \<not> (ilike example_runtime (curator_first_name c) ''Sidor''
                 \<and> ilike example_runtime (curator_last_name c) ''Sidorov''
                 \<and> ilike example_runtime (curator_patronymic c) ''Sidorovich'')"
    using role by (simp add: list_all_iff)
  have lookup: "get_student_by_fio example_runtime example_db ''Sidor'' ''Sidorov'' ''Sidorovich''
       = Inl (HTTPException 404)"
    by code_simp
  have acts: "fst (fio_handler example_runtime example_db example_unknown_name example_fio_context)
       = [DeleteMessage 2002 77, Answer NotFoundReply]"
    and lowered: "str_lower example_runtime (str_strip example_runtime (msg_text example_unknown_name))
       = ''sidorov sidor sidorovich''"
    by code_simp+
  from unmatched_name_fails_and_keeps_state [OF tokens unmatched] acts lowered
  have "fio_handler example_runtime example_db example_unknown_name example_fio_context
       = ([DeleteMessage 2002 77, Answer NotFoundReply],
          example_fio_context\<lparr>data_fio := Some ''sidorov sidor sidorovich''\<rparr>)"
    by auto
  with tokens role lookup show ?thesis by blast
qed

text \<open>
  The claim as stated fails: after a name of three tokens that nobody has, the
  conversation is still in the state \<open>RS_fio\<close> with the chosen role; it is not cleared.
\<close>

theorem unmatched_name_state_not_cleared_counterexample:
  "length (str_split example_runtime (str_strip example_runtime (msg_text example_unknown_name))) = 3
   \<and> get_student_by_fio example_runtime example_db ''Sidor'' ''Sidorov'' ''Sidorovich''
       = Inl (HTTPException 404)
   \<and> fsm_state example_fio_context = Some RS_fio
   \<and> fst (fio_handler example_runtime example_db example_unknown_name example_fio_context)
       = [DeleteMessage 2002 77, Answer NotFoundReply]
   \<and> fsm_state (snd (fio_handler example_runtime example_db example_unknown_name example_fio_context))
       = Some RS_fio
   \<and> data_role (snd (fio_handler example_runtime example_db example_unknown_name example_fio_context))
       = Some ''student''
   \<and> snd (fio_handler example_runtime example_db example_unknown_name example_fio_context) \<noteq> cleared"
  by code_simp

end
